theory Spec2Isabelle
  imports Complex_Main
begin

section \<open>Data model\<close>

text \<open>
  Python exceptions that the modelled functions can raise.  \<open>Exception msg\<close> is the
  plain \<^verbatim>\<open>raise Exception(msg)\<close> of \<^verbatim>\<open>opencv_utils.py\<close>.
  Python floats and numpy float32 values are idealised as exact reals; not-a-number and
  rounding are outside this model.
\<close>

datatype error =
    AttributeError
  | AssertionError
  | ValueError
  | ZeroDivisionError
  | IndexError
  | NotImplementedError
  | TypeError
  | Exception string

subsection \<open>Rect (\<^verbatim>\<open>from .rect import Rect\<close>)\<close>

text \<open>
  Modelled from the spec: the class \<^verbatim>\<open>Rect\<close> of \<^verbatim>\<open>rect.py\<close>, which is imported
  by \<^verbatim>\<open>face_detector.py\<close> but is not among the sources.  The spec (section 3) gives it
  four coordinates (x1, y1, x2, y2), the derived attributes width, height, area, center
  point and max dimension length, and the operations \<^verbatim>\<open>mult(w,h)\<close> (scale normalized
  coordinates to pixel space), \<^verbatim>\<open>transpose(dx,dy)\<close> (shift), \<^verbatim>\<open>square\<close> (the
  smallest square box centered at the same center covering the box) and a containment
  test for a point.
\<close>

record rect =
  x1 :: real
  y1 :: real
  x2 :: real
  y2 :: real

text \<open>Modelled from the spec: the derived attribute width of \<^verbatim>\<open>Rect\<close>.\<close>

definition Rect_w :: "rect \<Rightarrow> real" where
  "Rect_w r = x2 r - x1 r"

text \<open>Modelled from the spec: the derived attribute height of \<^verbatim>\<open>Rect\<close>.\<close>

definition Rect_h :: "rect \<Rightarrow> real" where
  "Rect_h r = y2 r - y1 r"

text \<open>Modelled from the spec: the derived attribute center point of \<^verbatim>\<open>Rect\<close>.\<close>

definition Rect_center :: "rect \<Rightarrow> real \<times> real" where
  "Rect_center r = ((x1 r + x2 r) / 2, (y1 r + y2 r) / 2)"

text \<open>Modelled from the spec: the derived attribute max dimension length of \<^verbatim>\<open>Rect\<close>
  (the longer side).\<close>

definition Rect_max_dim_len :: "rect \<Rightarrow> real" where
  "Rect_max_dim_len r = max (Rect_w r) (Rect_h r)"

text \<open>Modelled from the spec: \<^verbatim>\<open>Rect.mult(w,h)\<close>, scaling normalized coordinates to
  pixel space.\<close>

definition Rect_mult :: "rect \<Rightarrow> real \<Rightarrow> real \<Rightarrow> rect" where
  "Rect_mult r x y = \<lparr>x1 = x1 r * x, y1 = y1 r * y, x2 = x2 r * x, y2 = y2 r * y\<rparr>"

text \<open>Modelled from the spec: \<^verbatim>\<open>Rect.transpose(dx,dy)\<close>, shifting the box.\<close>

definition Rect_transpose :: "rect \<Rightarrow> real \<Rightarrow> real \<Rightarrow> rect" where
  "Rect_transpose r xoffset yoffset =
     \<lparr>x1 = x1 r + xoffset, y1 = y1 r + yoffset, x2 = x2 r + xoffset, y2 = y2 r + yoffset\<rparr>"

text \<open>Modelled from the spec: \<^verbatim>\<open>Rect.square\<close>, the smallest square box centered at
  the same center covering the box.\<close>

definition Rect_square :: "rect \<Rightarrow> rect" where
  "Rect_square r =
     (let offset = Rect_max_dim_len r / 2;
          xc = fst (Rect_center r);
          yc = snd (Rect_center r)
      in \<lparr>x1 = xc - offset, y1 = yc - offset, x2 = xc + offset, y2 = yc + offset\<rparr>)"

text \<open>Modelled from the spec: the containment test for a point
  (\<^verbatim>\<open>point in rect\<close>), borders included.\<close>

definition Rect_contains :: "rect \<Rightarrow> real \<times> real \<Rightarrow> bool" where
  "Rect_contains r p =
     (x1 r \<le> fst p \<and> fst p \<le> x2 r \<and> y1 r \<le> snd p \<and> snd p \<le> y2 r)"

subsection \<open>Detections and frames\<close>

text \<open>
  \<^verbatim>\<open>class Detection(NamedTuple): bbox : Rect; detect_conf : float\<close>.
  The confidence is a float, \<^verbatim>\<open>np.NAN\<close> (identity detector) or \<^verbatim>\<open>None\<close>
  (precomputed detector).
\<close>

datatype confidence = Conf real | NaN | NoConf

record detection =
  bbox :: rect
  detect_conf :: confidence

text \<open>
  A frame is a numpy array of shape \<^verbatim>\<open>(height, width, 3)\<close>: \<open>shape0\<close>, \<open>shape1\<close>
  and \<open>shape2\<close> are \<^verbatim>\<open>frame.shape[0]\<close>, \<^verbatim>\<open>[1]\<close> and \<^verbatim>\<open>[2]\<close>; \<open>pixel\<close> reads
  \<^verbatim>\<open>frame[y, x, c]\<close>.
\<close>

record frame =
  shape0 :: nat
  shape1 :: nat
  shape2 :: nat
  pixel :: "nat \<Rightarrow> nat \<Rightarrow> nat \<Rightarrow> nat"

text \<open>
  The attributes that \<^verbatim>\<open>FaceDetector.__init__\<close> assigns.  \<open>None\<close> is an attribute
  that was never assigned: reading it raises \<^verbatim>\<open>AttributeError\<close>.
\<close>

record face_detector =
  minconf :: "real option"
  min_size_px :: "real option"
  min_size_prct :: "real option"
  padd_prct :: "real option"

definition FaceDetector_init :: "real \<Rightarrow> real \<Rightarrow> real \<Rightarrow> real \<Rightarrow> face_detector" where
  "FaceDetector_init mc px prct padd =
     \<lparr>minconf = Some mc, min_size_px = Some px, min_size_prct = Some prct, padd_prct = Some padd\<rparr>"

section \<open>\<^verbatim>\<open>face_detector.py\<close>\<close>

text \<open>Python's \<^verbatim>\<open>int(x)\<close> on a float: truncation towards zero.\<close>

definition py_int :: "real \<Rightarrow> int" where
  "py_int r = (if 0 \<le> r then \<lfloor>r\<rfloor> else \<lceil>r\<rceil>)"

text \<open>
  \<^verbatim>\<open>_sqdist(p1, p2)\<close>: \<^verbatim>\<open>(p1[0] - p2[0]) ** 2 + (p1[1] - p2[1]) ** 2\<close>.
\<close>

definition sqdist :: "real \<times> real \<Rightarrow> real \<times> real \<Rightarrow> real" where
  "sqdist p1 p2 = (fst p1 - fst p2)\<^sup>2 + (snd p1 - snd p2)\<^sup>2"

text \<open>
  \<^verbatim>\<open>_blackpadd(frame, paddpercent)\<close>: the frame pasted into a black image with
  \<^verbatim>\<open>int(x * paddpercent)\<close> more columns on each side and \<^verbatim>\<open>int(y * paddpercent)\<close>
  more rows; returns the image and the two offsets.  A negative offset makes the slice
  assignment (or \<^verbatim>\<open>np.zeros\<close>) raise \<^verbatim>\<open>ValueError\<close>.
\<close>

definition blackpadd :: "frame \<Rightarrow> real \<Rightarrow> error + (frame \<times> int \<times> int)" where
  "blackpadd fr paddpercent =
     (let y = shape0 fr; x = shape1 fr; z = shape2 fr;
          xoffset = py_int (real x * paddpercent);
          yoffset = py_int (real y * paddpercent)
      in if xoffset < 0 \<or> yoffset < 0 then Inl ValueError
         else Inr (\<lparr>shape0 = y + 2 * nat yoffset,
                    shape1 = x + 2 * nat xoffset,
                    shape2 = z,
                    pixel = (\<lambda>i j c.
                      if nat yoffset \<le> i \<and> i < y + nat yoffset \<and>
                         nat xoffset \<le> j \<and> j < x + nat xoffset
                      then pixel fr (i - nat yoffset) (j - nat xoffset) c else 0)\<rparr>,
                   yoffset, xoffset))"

text \<open>
  \<^verbatim>\<open>FaceDetector.__call__(self, frame, verbose=False)\<close>, the public detect operation.
  \<open>call_imp\<close> is the subclass's \<^verbatim>\<open>_call_imp\<close>; \<open>st\<close> is the part of \<^verbatim>\<open>self\<close> that
  \<^verbatim>\<open>_call_imp\<close> may mutate (the queue of the precomputed detector), returned updated.
  The \<^verbatim>\<open>verbose\<close> branch only displays and is left out.
\<close>

definition FaceDetector_call ::
  "face_detector \<Rightarrow> ('s \<Rightarrow> frame \<Rightarrow> error + (detection list \<times> 's)) \<Rightarrow> 's \<Rightarrow> frame
     \<Rightarrow> error + (detection list \<times> 's)" where
  "FaceDetector_call self call_imp st fr =
     (case padd_prct self of
        None \<Rightarrow> Inl AttributeError
      | Some pp \<Rightarrow>
         (case (if pp \<noteq> 0 then blackpadd fr pp else Inr (fr, 0, 0)) of
            Inl e \<Rightarrow> Inl e
          | Inr (tmpframe, yoffset, xoffset) \<Rightarrow>
             (case call_imp st tmpframe of
                Inl e \<Rightarrow> Inl e
              | Inr (lret, st') \<Rightarrow>
                 (case min_size_px self of
                    None \<Rightarrow> Inl AttributeError
                  | Some px \<Rightarrow>
                     (case min_size_prct self of
                        None \<Rightarrow> Inl AttributeError
                      | Some prct \<Rightarrow>
                         (let min_frame_dim = min (shape0 fr) (shape1 fr);
                              min_face_size = max px (prct * real min_frame_dim);
                              lret1 = (if min_face_size > 0
                                       then filter (\<lambda>e. Rect_max_dim_len (bbox e) \<ge> min_face_size) lret
                                       else lret);
                              lret2 = (if pp \<noteq> 0
                                       then map (\<lambda>e. e\<lparr>bbox := Rect_transpose (bbox e)
                                                   (- real_of_int xoffset) (- real_of_int yoffset)\<rparr>) lret1
                                       else lret1)
                          in Inr (lret2, st')))))))"

text \<open>
  \<^verbatim>\<open>np.argmin\<close> and \<^verbatim>\<open>np.argmax\<close> on a list of numbers: the index of the first
  occurrence of the minimum (maximum); \<^verbatim>\<open>ValueError\<close> on an empty list.
\<close>

fun argmin_from :: "real list \<Rightarrow> nat \<Rightarrow> real \<Rightarrow> nat \<Rightarrow> nat" where
  "argmin_from [] i best bi = bi"
| "argmin_from (x # xs) i best bi =
     (if x < best then argmin_from xs (Suc i) x i else argmin_from xs (Suc i) best bi)"

definition np_argmin :: "real list \<Rightarrow> error + nat" where
  "np_argmin xs = (case xs of [] \<Rightarrow> Inl ValueError | x # r \<Rightarrow> Inr (argmin_from r 1 x 0))"

fun argmax_from :: "real list \<Rightarrow> nat \<Rightarrow> real \<Rightarrow> nat \<Rightarrow> nat" where
  "argmax_from [] i best bi = bi"
| "argmax_from (x # xs) i best bi =
     (if best < x then argmax_from xs (Suc i) x i else argmax_from xs (Suc i) best bi)"

definition np_argmax :: "real list \<Rightarrow> error + nat" where
  "np_argmax xs = (case xs of [] \<Rightarrow> Inl ValueError | x # r \<Rightarrow> Inr (argmax_from r 1 x 0))"

text \<open>\<^verbatim>\<open>FaceDetector.most_central_face(self, frame, verbose=False)\<close>.\<close>

definition most_central_face ::
  "face_detector \<Rightarrow> ('s \<Rightarrow> frame \<Rightarrow> error + (detection list \<times> 's)) \<Rightarrow> 's \<Rightarrow> frame
     \<Rightarrow> error + (detection option \<times> 's)" where
  "most_central_face self call_imp st fr =
     (let frame_center = (real (shape1 fr) / 2, real (shape0 fr) / 2) in
      case FaceDetector_call self call_imp st fr of
        Inl e \<Rightarrow> Inl e
      | Inr (ds, st') \<Rightarrow>
         (let faces = filter (\<lambda>f. Rect_contains (bbox f) frame_center) ds in
          if length faces = 0 then Inr (None, st')
          else
            (let ldists = map (\<lambda>f. sqdist (Rect_center (bbox f)) frame_center) faces in
             case np_argmin ldists of
               Inl e \<Rightarrow> Inl e
             | Inr am \<Rightarrow> Inr (Some (faces ! am), st'))))"

subsection \<open>\<^verbatim>\<open>OcvCnnFacedetector\<close>\<close>

text \<open>
  One row \<^verbatim>\<open>detections[0, 0, i, :]\<close> of the network's output, reduced to the columns
  the code reads: column 2 (the confidence) and columns 3 to 6 (the normalized box).
\<close>

record raw_detection =
  raw_conf :: real
  raw_x1 :: real
  raw_y1 :: real
  raw_x2 :: real
  raw_y2 :: real

text \<open>
  The asserted condition
  \<^verbatim>\<open>np.all(-np.sort(-detections[:,:,:,2]) == detections[:,:,:,2])\<close>.
\<close>

definition sorted_assert :: "real list \<Rightarrow> bool" where
  "sorted_assert cs = (map uminus (sort (map uminus cs)) = cs)"

text \<open>
  The decoding loop \<^verbatim>\<open>for i in range(detections.shape[2])\<close> of \<^verbatim>\<open>_call_imp\<close>:
  \<^verbatim>\<open>break\<close> at the first confidence below \<^verbatim>\<open>minconf\<close>, \<^verbatim>\<open>continue\<close> on noisy
  coordinates, otherwise append the box scaled by \<^verbatim>\<open>bbox.mult(w, h)\<close>.
\<close>

fun decode_loop :: "real \<Rightarrow> nat \<Rightarrow> nat \<Rightarrow> raw_detection list \<Rightarrow> detection list" where
  "decode_loop mc w h [] = []"
| "decode_loop mc w h (d # ds) =
     (let confidence = raw_conf d in
      if confidence < mc then []
      else
        (let b = \<lparr>x1 = raw_x1 d, y1 = raw_y1 d, x2 = raw_x2 d, y2 = raw_y2 d\<rparr> in
         if x1 b \<ge> 1 \<or> y1 b \<ge> 1 \<or> x2 b \<le> 0 \<or> y2 b \<le> 0 then decode_loop mc w h ds
         else if x1 b \<ge> x2 b \<or> y1 b \<ge> y2 b then decode_loop mc w h ds
         else \<lparr>bbox = Rect_mult b (real w) (real h), detect_conf = Conf confidence\<rparr>
                # decode_loop mc w h ds))"

text \<open>
  \<^verbatim>\<open>OcvCnnFacedetector._call_imp(self, frame)\<close>.  \<open>forward\<close> is the network
  (\<^verbatim>\<open>blobFromImage\<close>, \<^verbatim>\<open>setInput\<close>, \<^verbatim>\<open>model.forward()\<close>): the rows it returns for
  the frame.  \<^verbatim>\<open>self.minconf\<close> is read in the loop body only.
\<close>

definition OcvCnn_call_imp ::
  "face_detector \<Rightarrow> (frame \<Rightarrow> raw_detection list) \<Rightarrow> unit \<Rightarrow> frame
     \<Rightarrow> error + (detection list \<times> unit)" where
  "OcvCnn_call_imp self forward st fr =
     (let h = shape0 fr; w = shape1 fr;
          detections = forward fr
      in if \<not> sorted_assert (map raw_conf detections) then Inl AssertionError
         else
           (case minconf self of
              None \<Rightarrow> (if detections = [] then Inr ([], st) else Inl AttributeError)
            | Some mc \<Rightarrow> Inr (decode_loop mc w h detections, st)))"

text \<open>
  The full scan, following the spec's words (section 4.2 and the claim): every candidate
  with confidence at least \<^verbatim>\<open>minconf\<close> is kept, unless its box is degenerate or
  entirely outside the unit square, and is scaled to pixel coordinates.
\<close>

definition noisy_box :: "raw_detection \<Rightarrow> bool" where
  "noisy_box d =
     (raw_x1 d \<ge> 1 \<or> raw_y1 d \<ge> 1 \<or> raw_x2 d \<le> 0 \<or> raw_y2 d \<le> 0 \<or>
      raw_x1 d \<ge> raw_x2 d \<or> raw_y1 d \<ge> raw_y2 d)"

definition full_scan :: "real \<Rightarrow> nat \<Rightarrow> nat \<Rightarrow> raw_detection list \<Rightarrow> detection list" where
  "full_scan mc w h ds =
     map (\<lambda>d. \<lparr>bbox = Rect_mult \<lparr>x1 = raw_x1 d, y1 = raw_y1 d, x2 = raw_x2 d, y2 = raw_y2 d\<rparr>
                        (real w) (real h),
                detect_conf = Conf (raw_conf d)\<rparr>)
         (filter (\<lambda>d. raw_conf d \<ge> mc \<and> \<not> noisy_box d) ds)"

text \<open>
  \<^verbatim>\<open>OcvCnnFacedetector.get_closest_face(self, frame, ref_bbox, min_iou, squarify)\<close>.
  \<^verbatim>\<open>Rect.iou\<close> is not among the sources: \<open>iou\<close> is the value it returns.
\<close>

definition get_closest_face ::
  "(rect \<Rightarrow> rect \<Rightarrow> real) \<Rightarrow> face_detector
     \<Rightarrow> ('s \<Rightarrow> frame \<Rightarrow> error + (detection list \<times> 's)) \<Rightarrow> 's \<Rightarrow> frame
     \<Rightarrow> rect \<Rightarrow> real \<Rightarrow> bool \<Rightarrow> error + (detection option \<times> 's)" where
  "get_closest_face iou self call_imp st fr ref_bbox min_iou squarify =
     (let f = (if squarify then Rect_square else (\<lambda>x. x));
          ref_bbox1 = f ref_bbox
      in case FaceDetector_call self call_imp st fr of
           Inl e \<Rightarrow> Inl e
         | Inr (lfaces, st') \<Rightarrow>
            if length lfaces = 0 then Inr (None, st')
            else
              (let liou = map (\<lambda>d. iou (f ref_bbox1) (f (bbox d))) lfaces in
               case np_argmax liou of
                 Inl e \<Rightarrow> Inl e
               | Inr am \<Rightarrow>
                  if liou ! am < min_iou then Inr (None, st')
                  else Inr (Some (lfaces ! am), st')))"

subsection \<open>\<^verbatim>\<open>IdentityFaceDetector\<close> and \<^verbatim>\<open>PrecomputedDetector\<close>\<close>

text \<open>
  \<^verbatim>\<open>class FaceDetector(ABC)\<close> declares two abstract methods, \<^verbatim>\<open>output_type\<close> and
  \<^verbatim>\<open>_call_imp\<close>.  Calling a subclass to construct an instance raises
  \<^verbatim>\<open>TypeError\<close> unless the subclass defines both names; \<open>namespace\<close> is the list of
  the names that the body of the subclass defines, \<open>obj\<close> the instance that its
  \<^verbatim>\<open>__init__\<close> would leave.
\<close>

definition FaceDetector_abstractmethods :: "string list" where
  "FaceDetector_abstractmethods = [''output_type'', ''_call_imp'']"

definition abc_new :: "string list \<Rightarrow> 'a \<Rightarrow> error + 'a" where
  "abc_new namespace obj =
     (if list_all (\<lambda>n. n \<in> set namespace) FaceDetector_abstractmethods then Inr obj
      else Inl TypeError)"

text \<open>
  \<^verbatim>\<open>IdentityFaceDetector.__init__\<close> is \<^verbatim>\<open>pass\<close>: it does not call the base
  initialiser, so none of the four attributes would be assigned.
\<close>

definition IdentityFaceDetector_init :: face_detector where
  "IdentityFaceDetector_init =
     \<lparr>minconf = None, min_size_px = None, min_size_prct = None, padd_prct = None\<rparr>"

text \<open>
  The body of \<^verbatim>\<open>class IdentityFaceDetector(FaceDetector)\<close> defines \<^verbatim>\<open>__init__\<close> and
  \<^verbatim>\<open>_call_imp\<close> only; \<open>IdentityFaceDetector_new\<close> is the expression
  \<^verbatim>\<open>IdentityFaceDetector()\<close>.
\<close>

definition IdentityFaceDetector_namespace :: "string list" where
  "IdentityFaceDetector_namespace = [''__init__'', ''_call_imp'']"

definition IdentityFaceDetector_new :: "error + face_detector" where
  "IdentityFaceDetector_new = abc_new IdentityFaceDetector_namespace IdentityFaceDetector_init"

text \<open>
  \<^verbatim>\<open>IdentityFaceDetector._call_imp\<close>:
  \<^verbatim>\<open>return [((0, 0, frame.shape[1], frame.shape[0]), np.NAN)]\<close>.
\<close>

definition Identity_call_imp :: "unit \<Rightarrow> frame \<Rightarrow> error + (detection list \<times> unit)" where
  "Identity_call_imp st fr =
     Inr ([\<lparr>bbox = \<lparr>x1 = 0, y1 = 0, x2 = real (shape1 fr), y2 = real (shape0 fr)\<rparr>,
             detect_conf = NaN\<rparr>], st)"

text \<open>
  The public detect operation of the identity detector on a frame:
  \<^verbatim>\<open>IdentityFaceDetector()(frame)\<close>.
\<close>

definition Identity_detect :: "frame \<Rightarrow> error + (detection list \<times> unit)" where
  "Identity_detect fr =
     (case IdentityFaceDetector_new of
        Inl e \<Rightarrow> Inl e
      | Inr self \<Rightarrow> FaceDetector_call self Identity_call_imp () fr)"

text \<open>
  An entry of the queue of the precomputed detector: one box (a tuple) or a list of boxes.
\<close>

type_synonym box4 = "real \<times> real \<times> real \<times> real"

datatype lbbox_entry = TupleEntry box4 | ListEntry "box4 list"

definition Rect_of :: "box4 \<Rightarrow> rect" where
  "Rect_of e = (case e of (a, b, c, d) \<Rightarrow> \<lparr>x1 = a, y1 = b, x2 = c, y2 = d\<rparr>)"

text \<open>
  \<^verbatim>\<open>PrecomputedDetector.__init__(self, lbbox)\<close>: \<^verbatim>\<open>super().__init__(0, 0, 0, 0)\<close>
  and a copy of the list.
\<close>

definition PrecomputedDetector_init :: "lbbox_entry list \<Rightarrow> face_detector \<times> lbbox_entry list" where
  "PrecomputedDetector_init lbbox = (FaceDetector_init 0 0 0 0, lbbox)"

text \<open>
  The body of \<^verbatim>\<open>class PrecomputedDetector(FaceDetector)\<close> defines \<^verbatim>\<open>output_type\<close>,
  \<^verbatim>\<open>__init__\<close> and \<^verbatim>\<open>_call_imp\<close>; \<open>PrecomputedDetector_new lbbox\<close> is the
  expression \<^verbatim>\<open>PrecomputedDetector(lbbox)\<close>.
\<close>

definition PrecomputedDetector_namespace :: "string list" where
  "PrecomputedDetector_namespace = [''output_type'', ''__init__'', ''_call_imp'']"

definition PrecomputedDetector_new ::
  "lbbox_entry list \<Rightarrow> error + (face_detector \<times> lbbox_entry list)" where
  "PrecomputedDetector_new lbbox =
     abc_new PrecomputedDetector_namespace (PrecomputedDetector_init lbbox)"

text \<open>\<^verbatim>\<open>PrecomputedDetector._call_imp\<close>: pops the first entry of \<^verbatim>\<open>self.lbbox\<close>.\<close>

definition Precomputed_call_imp ::
  "lbbox_entry list \<Rightarrow> frame \<Rightarrow> error + (detection list \<times> lbbox_entry list)" where
  "Precomputed_call_imp lbbox fr =
     (case lbbox of
        [] \<Rightarrow> Inr ([], lbbox)
      | ret # rest \<Rightarrow>
         (let ret1 = (case ret of TupleEntry t \<Rightarrow> [t] | ListEntry l \<Rightarrow> l)
          in Inr (map (\<lambda>e. \<lparr>bbox = Rect_of e, detect_conf = NoConf\<rparr>) ret1, rest)))"

text \<open>
  Calling the precomputed detector on a sequence of frames, one after the other: the
  results of the calls, in order, and the queue that is left.
\<close>

fun Precomputed_calls ::
  "face_detector \<Rightarrow> lbbox_entry list \<Rightarrow> frame list
     \<Rightarrow> error + (detection list list \<times> lbbox_entry list)" where
  "Precomputed_calls self q [] = Inr ([], q)"
| "Precomputed_calls self q (fr # frs) =
     (case FaceDetector_call self Precomputed_call_imp q fr of
        Inl e \<Rightarrow> Inl e
      | Inr (r, q') \<Rightarrow>
         (case Precomputed_calls self q' frs of
            Inl e \<Rightarrow> Inl e
          | Inr (rs, q'') \<Rightarrow> Inr (r # rs, q'')))"

section \<open>\<^verbatim>\<open>face_utils.py\<close> and \<^verbatim>\<open>face_alignment.py\<close>\<close>

text \<open>
  \<^verbatim>\<open>dlib.rectangle\<close> is a class of the external library dlib: integer coordinates
  left, top, right and bottom, borders included.  A rectangle is empty when
  \<^verbatim>\<open>top > bottom\<close> or \<^verbatim>\<open>left > right\<close>; its width is \<^verbatim>\<open>right - left + 1\<close> and
  its height \<^verbatim>\<open>bottom - top + 1\<close> (both 0 when empty), its area their product, and
  \<^verbatim>\<open>a.intersect(b)\<close> takes the larger left and top and the smaller right and bottom.
\<close>

record rectangle =
  d_left :: int
  d_top :: int
  d_right :: int
  d_bottom :: int

definition is_empty :: "rectangle \<Rightarrow> bool" where
  "is_empty r = (d_top r > d_bottom r \<or> d_left r > d_right r)"

definition d_width :: "rectangle \<Rightarrow> int" where
  "d_width r = (if is_empty r then 0 else d_right r - d_left r + 1)"

definition d_height :: "rectangle \<Rightarrow> int" where
  "d_height r = (if is_empty r then 0 else d_bottom r - d_top r + 1)"

definition d_area :: "rectangle \<Rightarrow> int" where
  "d_area r = d_width r * d_height r"

definition d_intersect :: "rectangle \<Rightarrow> rectangle \<Rightarrow> rectangle" where
  "d_intersect a b =
     \<lparr>d_left = max (d_left a) (d_left b), d_top = max (d_top a) (d_top b),
      d_right = min (d_right a) (d_right b), d_bottom = min (d_bottom a) (d_bottom b)\<rparr>"

text \<open>\<^verbatim>\<open>np.round\<close>: rounding to the nearest integer, halves to the even one.\<close>

definition np_round :: "real \<Rightarrow> int" where
  "np_round v =
     (let f = \<lfloor>v\<rfloor>; d = v - of_int f
      in if d < 1 / 2 then f
         else if 1 / 2 < d then f + 1
         else if even f then f else f + 1)"

text \<open>
  \<^verbatim>\<open>tuple2rect(t)\<close>: \<^verbatim>\<open>dlib.rectangle(*[int(x) for x in np.round(t)])\<close>.
\<close>

definition tuple2rect :: "box4 \<Rightarrow> rectangle" where
  "tuple2rect t =
     (case t of (a, b, c, d) \<Rightarrow>
        \<lparr>d_left = np_round a, d_top = np_round b, d_right = np_round c, d_bottom = np_round d\<rparr>)"

text \<open>
  An argument of \<^verbatim>\<open>intersection_over_union\<close>: a \<^verbatim>\<open>dlib.rectangle\<close>, or an iterable
  of four numbers, which the function converts with \<^verbatim>\<open>tuple2rect\<close>.
\<close>

datatype iou_arg = RectArg rectangle | IterArg box4

definition as_rectangle :: "iou_arg \<Rightarrow> rectangle" where
  "as_rectangle a = (case a of RectArg r \<Rightarrow> r | IterArg t \<Rightarrow> tuple2rect t)"

text \<open>
  \<^verbatim>\<open>intersection_over_union(x, y)\<close>.  The quotient \<^verbatim>\<open>inter / union\<close> of two Python
  integers raises \<^verbatim>\<open>ZeroDivisionError\<close> when \<^verbatim>\<open>union\<close> is 0.
\<close>

definition intersection_over_union :: "iou_arg \<Rightarrow> iou_arg \<Rightarrow> error + real" where
  "intersection_over_union x y =
     (let xr = as_rectangle x;
          yr = as_rectangle y;
          inter = d_area (d_intersect xr yr);
          union = d_area xr + d_area yr - inter
      in if union = 0 then Inl ZeroDivisionError
         else Inr (real_of_int inter / real_of_int union))"

text \<open>
  A landmark shape (\<^verbatim>\<open>dlib.full_object_detection\<close>): its parts, points with integer
  coordinates.  \<^verbatim>\<open>shape.part(i)\<close> raises on an index that is out of range.
\<close>

type_synonym point = "int \<times> int"

type_synonym shape = "point list"

definition shape_part :: "shape \<Rightarrow> nat \<Rightarrow> error + point" where
  "shape_part sh i = (if i < length sh then Inr (sh ! i) else Inl IndexError)"

text \<open>\<^verbatim>\<open>_extract_eye(shape, eye_indices)\<close>: the parts at the indices, in order.\<close>

fun extract_eye :: "shape \<Rightarrow> nat list \<Rightarrow> error + point list" where
  "extract_eye sh [] = Inr []"
| "extract_eye sh (i # eye_indices) =
     (case shape_part sh i of
        Inl e \<Rightarrow> Inl e
      | Inr p \<Rightarrow>
         (case extract_eye sh eye_indices of
            Inl e \<Rightarrow> Inl e
          | Inr ps \<Rightarrow> Inr (p # ps)))"

text \<open>
  \<^verbatim>\<open>_extract_eye_center(shape, eye_indices)\<close>:
  \<^verbatim>\<open>return sum(xs) // 6, sum(ys) // 6\<close>, with Python's floor division on integers.
\<close>

definition extract_eye_center :: "shape \<Rightarrow> nat list \<Rightarrow> error + point" where
  "extract_eye_center sh eye_indices =
     (case extract_eye sh eye_indices of
        Inl e \<Rightarrow> Inl e
      | Inr points \<Rightarrow>
         (let xs = map fst points; ys = map snd points
          in Inr (sum_list xs div 6, sum_list ys div 6)))"

definition LEFT_EYE_INDICES :: "nat list" where
  "LEFT_EYE_INDICES = [36, 37, 38, 39, 40, 41]"

definition RIGHT_EYE_INDICES :: "nat list" where
  "RIGHT_EYE_INDICES = [42, 43, 44, 45, 46, 47]"

definition extract_left_eye_center :: "shape \<Rightarrow> error + point" where
  "extract_left_eye_center sh = extract_eye_center sh LEFT_EYE_INDICES"

definition extract_right_eye_center :: "shape \<Rightarrow> error + point" where
  "extract_right_eye_center sh = extract_eye_center sh RIGHT_EYE_INDICES"

text \<open>
  \<^verbatim>\<open>Dlib68FaceAlignment.detect_eye_centers(self, frame, bb)\<close>.  \<open>model\<close> is the
  landmark predictor \<^verbatim>\<open>self.model\<close>.
\<close>

definition detect_eye_centers ::
  "(frame \<Rightarrow> rectangle \<Rightarrow> shape) \<Rightarrow> frame \<Rightarrow> (int \<times> int \<times> int \<times> int) option
     \<Rightarrow> error + (point \<times> point)" where
  "detect_eye_centers model fr bb =
     (let bb1 = (case bb of None \<Rightarrow> (0, 0, int (shape1 fr), int (shape0 fr)) | Some b \<Rightarrow> b);
          bb2 = (case bb1 of (a, b, c, d) \<Rightarrow>
                   \<lparr>d_left = a, d_top = b, d_right = c, d_bottom = d\<rparr>);
          sh = model fr bb2
      in case extract_left_eye_center sh of
           Inl e \<Rightarrow> Inl e
         | Inr left_eye \<Rightarrow>
            (case extract_right_eye_center sh of
               Inl e \<Rightarrow> Inl e
             | Inr right_eye \<Rightarrow> Inr (left_eye, right_eye)))"

section \<open>\<^verbatim>\<open>opencv_utils.py\<close>\<close>

text \<open>
  \<^verbatim>\<open>cv2.VideoCapture(src)\<close> on a video file: whether it opened, its frame rate and its
  frames.  The position \<^verbatim>\<open>CAP_PROP_POS_FRAMES\<close> is the index of the next frame that
  \<^verbatim>\<open>cap.read()\<close> returns; \<^verbatim>\<open>read\<close> fails at the end of the frames.
\<close>

record 'f capture =
  cap_isOpened :: bool
  cap_fps :: real
  cap_frames :: "'f list"

text \<open>
  The loop \<^verbatim>\<open>while cap.isOpened()\<close> of \<^verbatim>\<open>video_iterator\<close>, from position \<open>pos\<close>:
  the pairs it yields, and the exception that ends it, if any.
\<close>

function vi_loop ::
  "('f \<Rightarrow> 'f) \<Rightarrow> 'f list \<Rightarrow> real option \<Rightarrow> int \<Rightarrow> nat \<Rightarrow> (nat \<times> 'f) list \<times> error option" where
  "vi_loop cvtColor frames stop subsamp_coeff pos =
     (if (case stop of None \<Rightarrow> False | Some s \<Rightarrow> real pos > s) then ([], None)
      else if \<not> pos < length frames then ([], None)
      else if subsamp_coeff = 0 then ([], Some ZeroDivisionError)
      else if int (Suc pos) mod subsamp_coeff \<noteq> 0
        then vi_loop cvtColor frames stop subsamp_coeff (Suc pos)
      else
        (case vi_loop cvtColor frames stop subsamp_coeff (Suc pos) of
           (ys, e) \<Rightarrow> ((Suc pos - 1, cvtColor (frames ! pos)) # ys, e)))"
  by pat_completeness auto
termination
  by (relation "measure (\<lambda>(c, frames, s, k, pos). length frames - pos)") auto

text \<open>
  \<^verbatim>\<open>video_iterator(src, time_unit, start, stop, subsamp_coeff)\<close>, iterated to its end.
  \<open>cap\<close> is \<^verbatim>\<open>cv2.VideoCapture(src)\<close>; \<^verbatim>\<open>cap.set(unit, start)\<close> moves the position to
  frame \<open>start\<close>.
\<close>

definition video_iterator ::
  "('f \<Rightarrow> 'f) \<Rightarrow> 'f capture \<Rightarrow> string \<Rightarrow> string \<Rightarrow> real option \<Rightarrow> real option \<Rightarrow> int
     \<Rightarrow> (nat \<times> 'f) list \<times> error option" where
  "video_iterator cvtColor cap src time_unit start stop subsamp_coeff =
     (if \<not> cap_isOpened cap
        then ([], Some (Exception (''Video file '' @ src @ '' does not exist or is invalid'')))
      else if time_unit = ''frame''
        then vi_loop cvtColor (cap_frames cap) stop subsamp_coeff
               (case start of None \<Rightarrow> 0 | Some s \<Rightarrow> nat \<lfloor>s\<rfloor>)
      else if time_unit = ''ms''
        then
          (let fps = cap_fps cap;
               start1 = map_option (\<lambda>s. real_of_int \<lfloor>s * fps / 1000\<rfloor>) start;
               stop1 = map_option (\<lambda>s. real_of_int \<lfloor>s * fps / 1000\<rfloor>) stop
           in vi_loop cvtColor (cap_frames cap) stop1 subsamp_coeff
                (case start1 of None \<Rightarrow> 0 | Some s \<Rightarrow> nat \<lfloor>s\<rfloor>))
      else ([], Some NotImplementedError))"

section \<open>Properties\<close>

subsection \<open>Eye centers\<close>

lemma extract_eye_ok:
  "\<forall>i \<in> set ixs. i < length sh \<Longrightarrow> extract_eye sh ixs = Inr (map (\<lambda>i. sh ! i) ixs)"
  by (induction ixs) (auto simp: shape_part_def)

lemma floor_mean6: "\<lfloor>real_of_int s / 6\<rfloor> = s div 6"
  by (simp add: floor_divide_of_int_eq[of s 6, simplified])

lemma left_eye_center_eq:
  assumes "48 \<le> length sh"
  shows "extract_left_eye_center sh =
           Inr (\<lfloor>real_of_int (\<Sum>i\<leftarrow>LEFT_EYE_INDICES. fst (sh ! i)) / 6\<rfloor>,
                \<lfloor>real_of_int (\<Sum>i\<leftarrow>LEFT_EYE_INDICES. snd (sh ! i)) / 6\<rfloor>)"
proof -
  have l: "\<forall>i \<in> set LEFT_EYE_INDICES. i < length sh"
    using assms by (auto simp: LEFT_EYE_INDICES_def)
  show ?thesis
    by (simp add: extract_left_eye_center_def extract_eye_center_def extract_eye_ok[OF l]
        floor_mean6 comp_def)
qed

lemma right_eye_center_eq:
  assumes "48 \<le> length sh"
  shows "extract_right_eye_center sh =
           Inr (\<lfloor>real_of_int (\<Sum>i\<leftarrow>RIGHT_EYE_INDICES. fst (sh ! i)) / 6\<rfloor>,
                \<lfloor>real_of_int (\<Sum>i\<leftarrow>RIGHT_EYE_INDICES. snd (sh ! i)) / 6\<rfloor>)"
proof -
  have r: "\<forall>i \<in> set RIGHT_EYE_INDICES. i < length sh"
    using assms by (auto simp: RIGHT_EYE_INDICES_def)
  show ?thesis
    by (simp add: extract_right_eye_center_def extract_eye_center_def extract_eye_ok[OF r]
        floor_mean6 comp_def)
qed

text \<open>
  Claim C10.  For a landmark shape with the parts 36 to 47 (the 68-landmark predictor
  returns 68 parts), the left and the right eye center that \<open>detect_eye_centers\<close>
  returns are pairs of integers: the floor of the arithmetic mean of the six x
  coordinates of the eye's landmarks and the floor of the mean of their six y
  coordinates, which is the floor division of the sum by 6.
\<close>

theorem eye_centers_floor_of_mean:
  assumes "model fr (case (case bb of None \<Rightarrow> (0, 0, int (shape1 fr), int (shape0 fr))
                                     | Some b \<Rightarrow> b)
                     of (a, b, c, d) \<Rightarrow> \<lparr>d_left = a, d_top = b, d_right = c, d_bottom = d\<rparr>) = sh"
    and "48 \<le> length sh"
  shows "detect_eye_centers model fr bb =
           Inr ((\<lfloor>real_of_int (\<Sum>i\<leftarrow>[36, 37, 38, 39, 40, 41]. fst (sh ! i)) / 6\<rfloor>,
                 \<lfloor>real_of_int (\<Sum>i\<leftarrow>[36, 37, 38, 39, 40, 41]. snd (sh ! i)) / 6\<rfloor>),
                (\<lfloor>real_of_int (\<Sum>i\<leftarrow>[42, 43, 44, 45, 46, 47]. fst (sh ! i)) / 6\<rfloor>,
                 \<lfloor>real_of_int (\<Sum>i\<leftarrow>[42, 43, 44, 45, 46, 47]. snd (sh ! i)) / 6\<rfloor>)) \<and>
         detect_eye_centers model fr bb =
           Inr (((\<Sum>i\<leftarrow>[36, 37, 38, 39, 40, 41]. fst (sh ! i)) div 6,
                 (\<Sum>i\<leftarrow>[36, 37, 38, 39, 40, 41]. snd (sh ! i)) div 6),
                ((\<Sum>i\<leftarrow>[42, 43, 44, 45, 46, 47]. fst (sh ! i)) div 6,
                 (\<Sum>i\<leftarrow>[42, 43, 44, 45, 46, 47]. snd (sh ! i)) div 6))"
proof -
  have l: "extract_left_eye_center sh =
             Inr (\<lfloor>real_of_int (\<Sum>i\<leftarrow>[36, 37, 38, 39, 40, 41]. fst (sh ! i)) / 6\<rfloor>,
                  \<lfloor>real_of_int (\<Sum>i\<leftarrow>[36, 37, 38, 39, 40, 41]. snd (sh ! i)) / 6\<rfloor>)"
    using left_eye_center_eq[OF assms(2)] by (simp only: LEFT_EYE_INDICES_def)
  have r: "extract_right_eye_center sh =
             Inr (\<lfloor>real_of_int (\<Sum>i\<leftarrow>[42, 43, 44, 45, 46, 47]. fst (sh ! i)) / 6\<rfloor>,
                  \<lfloor>real_of_int (\<Sum>i\<leftarrow>[42, 43, 44, 45, 46, 47]. snd (sh ! i)) / 6\<rfloor>)"
    using right_eye_center_eq[OF assms(2)] by (simp only: RIGHT_EYE_INDICES_def)
  have d: "detect_eye_centers model fr bb =
             (case extract_left_eye_center sh of
                Inl e \<Rightarrow> Inl e
              | Inr left_eye \<Rightarrow>
                 (case extract_right_eye_center sh of
                    Inl e \<Rightarrow> Inl e
                  | Inr right_eye \<Rightarrow> Inr (left_eye, right_eye)))"
    unfolding detect_eye_centers_def Let_def assms(1) ..
  have first: "detect_eye_centers model fr bb =
           Inr ((\<lfloor>real_of_int (\<Sum>i\<leftarrow>[36, 37, 38, 39, 40, 41]. fst (sh ! i)) / 6\<rfloor>,
                 \<lfloor>real_of_int (\<Sum>i\<leftarrow>[36, 37, 38, 39, 40, 41]. snd (sh ! i)) / 6\<rfloor>),
                (\<lfloor>real_of_int (\<Sum>i\<leftarrow>[42, 43, 44, 45, 46, 47]. fst (sh ! i)) / 6\<rfloor>,
                 \<lfloor>real_of_int (\<Sum>i\<leftarrow>[42, 43, 44, 45, 46, 47]. snd (sh ! i)) / 6\<rfloor>))"
    by (simp only: d l r sum.case)
  show ?thesis
    using first by (simp only: floor_mean6 simp_thms)
qed

theorem eye_centers_floor_of_mean_witness:
  "48 \<le> length (map (\<lambda>i. (int i, 2 * int i - 100)) [0..<68]) \<and>
   detect_eye_centers (\<lambda>f r. map (\<lambda>i. (int i, 2 * int i - 100)) [0..<68])
       \<lparr>shape0 = 100, shape1 = 200, shape2 = 3, pixel = (\<lambda>i j c. 0)\<rparr> None
     = Inr ((38, -23), (44, -11))"
  using eye_centers_floor_of_mean [of "\<lambda>f r. map (\<lambda>i. (int i, 2 * int i - 100)) [0..<68]"
      "\<lparr>shape0 = 100, shape1 = 200, shape2 = 3, pixel = (\<lambda>i j c. 0)\<rparr>" None
      "map (\<lambda>i. (int i, 2 * int i - 100)) [0..<68]"]
  by simp

subsection \<open>The identity and the precomputed detector\<close>

text \<open>
  Claim C7.  The claim is that the public detect operation of the identity detector
  returns exactly one detection spanning the whole frame, with an undefined confidence.
  \<open>_call_imp\<close> alone does return that list, but \<open>IdentityFaceDetector()(frame)\<close>
  raises \<open>TypeError\<close> on every frame: the class does not define the abstract
  \<open>output_type\<close>, so no instance is constructed.  And were one constructed, its
  initialiser assigns no attribute, so \<open>__call__\<close> would raise \<open>AttributeError\<close> at
  \<open>self.padd_prct\<close>.
\<close>

theorem identity_detector_call_raises:
  "Identity_detect fr = Inl TypeError \<and>
   IdentityFaceDetector_new = Inl TypeError \<and>
   FaceDetector_call IdentityFaceDetector_init Identity_call_imp () fr = Inl AttributeError \<and>
   Identity_call_imp () fr =
     Inr ([\<lparr>bbox = \<lparr>x1 = 0, y1 = 0, x2 = real (shape1 fr), y2 = real (shape0 fr)\<rparr>,
             detect_conf = NaN\<rparr>], ())"
  by (simp add: Identity_detect_def IdentityFaceDetector_new_def abc_new_def
      FaceDetector_abstractmethods_def IdentityFaceDetector_namespace_def
      FaceDetector_call_def IdentityFaceDetector_init_def Identity_call_imp_def)

lemma precomputed_new:
  "PrecomputedDetector_new lbbox = Inr (PrecomputedDetector_init lbbox)"
  by (simp add: PrecomputedDetector_new_def abc_new_def FaceDetector_abstractmethods_def
      PrecomputedDetector_namespace_def)

lemma precomputed_call:
  "FaceDetector_call (FaceDetector_init 0 0 0 0) Precomputed_call_imp q fr
     = Precomputed_call_imp q fr"
  by (simp add: FaceDetector_call_def FaceDetector_init_def Precomputed_call_imp_def
      split: list.splits)

lemma precomputed_calls_empty:
  "Precomputed_calls (FaceDetector_init 0 0 0 0) [] frs = Inr (replicate (length frs) [], [])"
  by (induction frs) (simp_all add: precomputed_call, simp_all add: Precomputed_call_imp_def)

text \<open>
  Claim C8.  Each call to the precomputed detector removes exactly the first entry of its
  queue: a tuple entry gives the one-element detection list of that box, a list entry
  gives one detection for each box it holds, each without a confidence value; and once
  the queue is empty, every later call returns the empty list (and leaves the queue
  empty).
\<close>

theorem precomputed_pops_first_entry:
  "FaceDetector_call (fst (PrecomputedDetector_init q0)) Precomputed_call_imp
       (TupleEntry t # rest) fr
     = Inr ([\<lparr>bbox = Rect_of t, detect_conf = NoConf\<rparr>], rest) \<and>
   FaceDetector_call (fst (PrecomputedDetector_init q0)) Precomputed_call_imp
       (ListEntry l # rest) fr
     = Inr (map (\<lambda>e. \<lparr>bbox = Rect_of e, detect_conf = NoConf\<rparr>) l, rest) \<and>
   Precomputed_calls (fst (PrecomputedDetector_init q0)) [] frs
     = Inr (replicate (length frs) [], [])"
  by (simp add: PrecomputedDetector_init_def precomputed_call precomputed_calls_empty)
     (simp add: Precomputed_call_imp_def)

subsection \<open>The video iterator\<close>

text \<open>
  Claim C9, as stated: for every time unit other than \<open>frame\<close> and \<open>ms\<close>, iterating
  \<open>video_iterator\<close> fails with \<open>NotImplementedError\<close>.  It does not when the source
  cannot be opened: the check of \<open>cap.isOpened()\<close> comes first and raises the plain
  exception of the unreadable file.
\<close>

theorem video_iterator_bad_unit_counterexample:
  "''sec'' \<noteq> ''frame'' \<and> ''sec'' \<noteq> ''ms'' \<and>
   video_iterator (\<lambda>f. f) \<lparr>cap_isOpened = False, cap_fps = 25, cap_frames = ([] :: nat list)\<rparr>
       ''a.mp4'' ''sec'' None None 1
     = ([], Some (Exception ''Video file a.mp4 does not exist or is invalid'')) \<and>
   video_iterator (\<lambda>f. f) \<lparr>cap_isOpened = False, cap_fps = 25, cap_frames = ([] :: nat list)\<rparr>
       ''a.mp4'' ''sec'' None None 1
     \<noteq> ([], Some NotImplementedError)"
  by (simp add: video_iterator_def)

text \<open>
  Claim C9, amended.  For every time unit other than \<open>frame\<close> and \<open>ms\<close>, iterating
  \<open>video_iterator\<close> on a source that opens fails with \<open>NotImplementedError\<close> and
  yields no frame before failing; on a source that does not open it fails with the
  exception of the unreadable file, also without a frame.
\<close>

theorem video_iterator_bad_unit:
  assumes "time_unit \<noteq> ''frame''" and "time_unit \<noteq> ''ms''"
  shows "video_iterator cvtColor cap src time_unit start stop subsamp_coeff =
           (if cap_isOpened cap then ([], Some NotImplementedError)
            else ([], Some (Exception (''Video file '' @ src @ '' does not exist or is invalid''))))"
  using assms by (simp add: video_iterator_def)

theorem video_iterator_bad_unit_witness:
  "video_iterator (\<lambda>f. f) \<lparr>cap_isOpened = True, cap_fps = 25, cap_frames = [1, 2, 3 :: nat]\<rparr>
       ''a.mp4'' ''sec'' None None 1 = ([], Some NotImplementedError)"
  using video_iterator_bad_unit [of "''sec''" "\<lambda>f. f"
      "\<lparr>cap_isOpened = True, cap_fps = 25, cap_frames = [1, 2, 3 :: nat]\<rparr>" "''a.mp4''" None None 1]
  by simp

subsection \<open>Intersection over union\<close>

lemma d_intersect_commute: "d_intersect a b = d_intersect b a"
  by (simp add: d_intersect_def max.commute min.commute)

lemma d_intersect_self: "d_intersect a a = a"
  by (simp add: d_intersect_def)

lemma d_area_pos_iff: "0 < d_area r \<longleftrightarrow> \<not> is_empty r"
  by (auto simp: d_area_def d_width_def d_height_def is_empty_def zero_less_mult_iff)

lemma separated_zero_area:
  "d_right a < d_left b \<or> d_right b < d_left a \<or> d_bottom a < d_top b \<or> d_bottom b < d_top a
    \<Longrightarrow> d_area (d_intersect a b) = 0"
  by (auto simp: d_area_def d_width_def d_height_def is_empty_def d_intersect_def)

lemma np_round_mono: "a \<le> c \<Longrightarrow> np_round a \<le> np_round c"
proof -
  assume ac: "a \<le> c"
  have fa: "\<lfloor>a\<rfloor> \<le> \<lfloor>c\<rfloor>" using ac by (rule floor_mono)
  have lo: "\<lfloor>v\<rfloor> \<le> np_round v" and hi: "np_round v \<le> \<lfloor>v\<rfloor> + 1" for v
    by (simp_all add: np_round_def Let_def)
  show ?thesis
  proof (cases "\<lfloor>a\<rfloor> = \<lfloor>c\<rfloor>")
    case True
    then show ?thesis using ac by (auto simp: np_round_def Let_def)
  next
    case False
    with fa have "\<lfloor>a\<rfloor> + 1 \<le> \<lfloor>c\<rfloor>" by simp
    with lo[of c] hi[of a] show ?thesis by linarith
  qed
qed

lemma tuple_nonempty:
  "a \<le> c \<Longrightarrow> b \<le> d \<Longrightarrow> 0 < d_area (as_rectangle (IterArg (a, b, c, d)))"
  using np_round_mono[of a c] np_round_mono[of b d]
  by (simp add: as_rectangle_def tuple2rect_def d_area_def d_width_def d_height_def is_empty_def)

lemma iou_self: "0 < d_area (as_rectangle x) \<Longrightarrow> intersection_over_union x x = Inr 1"
  by (simp add: intersection_over_union_def Let_def d_intersect_self)

text \<open>
  Claim C6, as stated: for well-formed boxes of positive area, intersection over union
  is 0 when the boxes are disjoint.  The function rounds the coordinates of a tuple to
  integers and computes on pixel rectangles whose borders are included: the two disjoint
  boxes (0.1, 0.1, 0.2, 0.2) and (0.3, 0.3, 0.4, 0.4) both round to the pixel (0, 0) and get
  1, and the two rectangles (0, 0, 10, 10) and (10, 0, 20, 10), which share an edge only,
  get 1/21.
\<close>

theorem iou_disjoint_counterexample:
  "(1 / 10 :: real) < 2 / 10 \<and> (2 / 10 :: real) < 3 / 10 \<and> (3 / 10 :: real) < 4 / 10 \<and>
   intersection_over_union (IterArg (1 / 10, 1 / 10, 2 / 10, 2 / 10))
                           (IterArg (3 / 10, 3 / 10, 4 / 10, 4 / 10)) = Inr 1 \<and>
   intersection_over_union (RectArg \<lparr>d_left = 0, d_top = 0, d_right = 10, d_bottom = 10\<rparr>)
                           (RectArg \<lparr>d_left = 10, d_top = 0, d_right = 20, d_bottom = 10\<rparr>)
     = Inr (1 / 21)"
  by (simp add: intersection_over_union_def as_rectangle_def tuple2rect_def np_round_def Let_def
      d_area_def d_width_def d_height_def is_empty_def d_intersect_def)

text \<open>
  Claim C6, amended.  Intersection over union is symmetric for all arguments (the raised
  \<open>ZeroDivisionError\<close> included).  It is 1 on two identical boxes whenever the box, as
  a pixel rectangle, has positive area, which every tuple with \<open>x1 \<le> x2\<close> and
  \<open>y1 \<le> y2\<close> has.  It is 0 when the two pixel rectangles (the coordinates rounded to
  integers, borders included) have positive area and are separated by at least one
  pixel: the right border of one is left of the left border of the other, or the bottom
  border of one is above the top border of the other.
\<close>

theorem iou_symmetric_one_separated:
  "intersection_over_union x y = intersection_over_union y x \<and>
   (0 < d_area (as_rectangle x) \<longrightarrow> intersection_over_union x x = Inr 1) \<and>
   (a \<le> c \<and> b \<le> d \<longrightarrow>
      intersection_over_union (IterArg (a, b, c, d)) (IterArg (a, b, c, d)) = Inr 1) \<and>
   (0 < d_area (as_rectangle x) \<and> 0 < d_area (as_rectangle y) \<and>
    (d_right (as_rectangle x) < d_left (as_rectangle y) \<or>
     d_right (as_rectangle y) < d_left (as_rectangle x) \<or>
     d_bottom (as_rectangle x) < d_top (as_rectangle y) \<or>
     d_bottom (as_rectangle y) < d_top (as_rectangle x))
      \<longrightarrow> intersection_over_union x y = Inr 0)"
proof (intro conjI impI)
  show "intersection_over_union x y = intersection_over_union y x"
    by (simp add: intersection_over_union_def Let_def d_intersect_commute add.commute)
next
  assume "0 < d_area (as_rectangle x)"
  then show "intersection_over_union x x = Inr 1" by (rule iou_self)
next
  assume "a \<le> c \<and> b \<le> d"
  then have "0 < d_area (as_rectangle (IterArg (a, b, c, d)))"
    by (simp add: tuple_nonempty)
  then show "intersection_over_union (IterArg (a, b, c, d)) (IterArg (a, b, c, d)) = Inr 1"
    by (rule iou_self)
next
  assume h: "0 < d_area (as_rectangle x) \<and> 0 < d_area (as_rectangle y) \<and>
    (d_right (as_rectangle x) < d_left (as_rectangle y) \<or>
     d_right (as_rectangle y) < d_left (as_rectangle x) \<or>
     d_bottom (as_rectangle x) < d_top (as_rectangle y) \<or>
     d_bottom (as_rectangle y) < d_top (as_rectangle x))"
  then have "d_area (d_intersect (as_rectangle x) (as_rectangle y)) = 0"
    by (intro separated_zero_area) blast
  with h show "intersection_over_union x y = Inr 0"
    by (simp add: intersection_over_union_def Let_def)
qed

theorem iou_symmetric_one_separated_witness:
  "0 < d_area (as_rectangle (RectArg \<lparr>d_left = 0, d_top = 0, d_right = 9, d_bottom = 9\<rparr>)) \<and>
   0 < d_area (as_rectangle (IterArg (41 / 2, 0, 30, 92 / 10))) \<and>
   d_right (as_rectangle (RectArg \<lparr>d_left = 0, d_top = 0, d_right = 9, d_bottom = 9\<rparr>))
     < d_left (as_rectangle (IterArg (41 / 2, 0, 30, 92 / 10))) \<and>
   intersection_over_union (RectArg \<lparr>d_left = 0, d_top = 0, d_right = 9, d_bottom = 9\<rparr>)
                           (IterArg (41 / 2, 0, 30, 92 / 10)) = Inr 0 \<and>
   intersection_over_union (IterArg (41 / 2, 0, 30, 92 / 10))
                           (RectArg \<lparr>d_left = 0, d_top = 0, d_right = 9, d_bottom = 9\<rparr>) = Inr 0 \<and>
   intersection_over_union (RectArg \<lparr>d_left = 0, d_top = 0, d_right = 9, d_bottom = 9\<rparr>)
                           (RectArg \<lparr>d_left = 0, d_top = 0, d_right = 9, d_bottom = 9\<rparr>) = Inr 1 \<and>
   intersection_over_union (IterArg (41 / 2, 0, 30, 92 / 10))
                           (IterArg (41 / 2, 0, 30, 92 / 10)) = Inr 1"
proof -
  have a: "0 < d_area (as_rectangle (RectArg \<lparr>d_left = 0, d_top = 0, d_right = 9, d_bottom = 9\<rparr>))"
    by (simp add: as_rectangle_def d_area_def d_width_def d_height_def is_empty_def)
  have b: "0 < d_area (as_rectangle (IterArg (41 / 2, 0, 30, 92 / 10)))"
    by (simp add: as_rectangle_def tuple2rect_def np_round_def Let_def d_area_def d_width_def
        d_height_def is_empty_def)
  have c: "d_right (as_rectangle (RectArg \<lparr>d_left = 0, d_top = 0, d_right = 9, d_bottom = 9\<rparr>))
             < d_left (as_rectangle (IterArg (41 / 2, 0, 30, 92 / 10)))"
    by (simp add: as_rectangle_def tuple2rect_def np_round_def Let_def)
  have d: "(41 / 2 :: real) \<le> 30 \<and> (0 :: real) \<le> 92 / 10"
    by simp
  show ?thesis
    using a b c d
      iou_symmetric_one_separated [of "RectArg \<lparr>d_left = 0, d_top = 0, d_right = 9, d_bottom = 9\<rparr>"
        "IterArg (41 / 2, 0, 30, 92 / 10)" "41 / 2" 30 0 "92 / 10"]
    by auto
qed

subsection \<open>Padding offsets\<close>

lemma transpose_max_dim_len:
  "Rect_max_dim_len (Rect_transpose r a b) = Rect_max_dim_len r"
  by (simp add: Rect_max_dim_len_def Rect_transpose_def Rect_w_def Rect_h_def)

lemma transpose_back: "Rect_transpose (Rect_transpose b xoff yoff) (- xoff) (- yoff) = b"
  by (simp add: Rect_transpose_def)

text \<open>
  Claim C5.  Transposing a box by \<open>(xoff, yoff)\<close> and then by \<open>(-xoff, -yoff)\<close>
  gives the box back.  Consequently, when padding is applied in \<open>__call__\<close> and the
  detector sees, in the padded frame, boxes \<open>ds\<close> of the original frame shifted by the
  padding offsets, the call returns the boxes of \<open>ds\<close> that pass the size filter, in
  the coordinates of the original, unpadded frame.
\<close>

theorem transpose_roundtrip_depad:
  "Rect_transpose (Rect_transpose b xoff yoff) (- xoff) (- yoff) = b \<and>
   (padd_prct self = Some pp \<and> pp \<noteq> 0 \<and> min_size_px self = Some px \<and>
    min_size_prct self = Some prct \<and> blackpadd fr pp = Inr (tmp, yo, xo) \<and>
    call_imp st tmp =
      Inr (map (\<lambda>d. d\<lparr>bbox := Rect_transpose (bbox d) (real_of_int xo) (real_of_int yo)\<rparr>) ds, st')
    \<longrightarrow> FaceDetector_call self call_imp st fr =
          Inr (if max px (prct * real (min (shape0 fr) (shape1 fr))) > 0
               then filter (\<lambda>e. Rect_max_dim_len (bbox e)
                                  \<ge> max px (prct * real (min (shape0 fr) (shape1 fr)))) ds
               else ds, st'))"
proof (intro conjI impI)
  show "Rect_transpose (Rect_transpose b xoff yoff) (- xoff) (- yoff) = b"
    by (rule transpose_back)
next
  assume a: "padd_prct self = Some pp \<and> pp \<noteq> 0 \<and> min_size_px self = Some px \<and>
    min_size_prct self = Some prct \<and> blackpadd fr pp = Inr (tmp, yo, xo) \<and>
    call_imp st tmp =
      Inr (map (\<lambda>d. d\<lparr>bbox := Rect_transpose (bbox d) (real_of_int xo) (real_of_int yo)\<rparr>) ds, st')"
  then show "FaceDetector_call self call_imp st fr =
          Inr (if max px (prct * real (min (shape0 fr) (shape1 fr))) > 0
               then filter (\<lambda>e. Rect_max_dim_len (bbox e)
                                  \<ge> max px (prct * real (min (shape0 fr) (shape1 fr)))) ds
               else ds, st')"
    by (simp add: FaceDetector_call_def Let_def filter_map comp_def transpose_back
        transpose_max_dim_len)
qed

theorem transpose_roundtrip_depad_witness:
  "Rect_transpose (Rect_transpose \<lparr>x1 = 10, y1 = 20, x2 = 60, y2 = 70\<rparr> 30 15) (- 30) (- 15)
     = \<lparr>x1 = 10, y1 = 20, x2 = 60, y2 = 70\<rparr> \<and>
   blackpadd \<lparr>shape0 = 100, shape1 = 200, shape2 = 3, pixel = (\<lambda>i j c. 0)\<rparr> (15 / 100)
     = Inr (\<lparr>shape0 = 130, shape1 = 260, shape2 = 3, pixel = (\<lambda>i j c. 0)\<rparr>, 15, 30) \<and>
   FaceDetector_call (FaceDetector_init (65 / 100) 30 0 (15 / 100))
       (\<lambda>st f. Inr ([\<lparr>bbox = \<lparr>x1 = 40, y1 = 35, x2 = 90, y2 = 85\<rparr>, detect_conf = Conf (9 / 10)\<rparr>,
                      \<lparr>bbox = \<lparr>x1 = 30, y1 = 15, x2 = 40, y2 = 25\<rparr>, detect_conf = Conf (8 / 10)\<rparr>], st))
       () \<lparr>shape0 = 100, shape1 = 200, shape2 = 3, pixel = (\<lambda>i j c. 0)\<rparr>
     = Inr ([\<lparr>bbox = \<lparr>x1 = 10, y1 = 20, x2 = 60, y2 = 70\<rparr>, detect_conf = Conf (9 / 10)\<rparr>], ())"
proof -
  have bp: "blackpadd \<lparr>shape0 = 100, shape1 = 200, shape2 = 3, pixel = (\<lambda>i j c. 0)\<rparr> (15 / 100)
     = Inr (\<lparr>shape0 = 130, shape1 = 260, shape2 = 3, pixel = (\<lambda>i j c. 0)\<rparr>, 15, 30)"
    by (simp add: blackpadd_def py_int_def Let_def cong: if_cong)
  show ?thesis
    using bp transpose_roundtrip_depad [of "\<lparr>x1 = 10, y1 = 20, x2 = 60, y2 = 70\<rparr>" 30 15
        "FaceDetector_init (65 / 100) 30 0 (15 / 100)" "15 / 100" 30 0
        "\<lparr>shape0 = 100, shape1 = 200, shape2 = 3, pixel = (\<lambda>i j c. 0)\<rparr>"
        "\<lparr>shape0 = 130, shape1 = 260, shape2 = 3, pixel = (\<lambda>i j c. 0)\<rparr>" 15 30
        "\<lambda>st f. Inr ([\<lparr>bbox = \<lparr>x1 = 40, y1 = 35, x2 = 90, y2 = 85\<rparr>, detect_conf = Conf (9 / 10)\<rparr>,
                      \<lparr>bbox = \<lparr>x1 = 30, y1 = 15, x2 = 40, y2 = 25\<rparr>, detect_conf = Conf (8 / 10)\<rparr>], st)"
        "()"
        "[\<lparr>bbox = \<lparr>x1 = 10, y1 = 20, x2 = 60, y2 = 70\<rparr>, detect_conf = Conf (9 / 10)\<rparr>,
          \<lparr>bbox = \<lparr>x1 = 0, y1 = 0, x2 = 10, y2 = 10\<rparr>, detect_conf = Conf (8 / 10)\<rparr>]" "()"]
    by (simp add: FaceDetector_init_def Rect_transpose_def Rect_max_dim_len_def Rect_w_def Rect_h_def)
qed

subsection \<open>The size filter\<close>

lemma call_size_filter_guarded:
  assumes "padd_prct self = Some pp" and "min_size_px self = Some px"
    and "min_size_prct self = Some prct"
    and "(if pp \<noteq> 0 then blackpadd fr pp else Inr (fr, 0, 0)) = Inr (tmp, yo, xo)"
    and "call_imp st tmp = Inr (lret, st')"
  shows "FaceDetector_call self call_imp st fr =
           Inr ((if pp \<noteq> 0
                 then map (\<lambda>e. e\<lparr>bbox := Rect_transpose (bbox e)
                                   (- real_of_int xo) (- real_of_int yo)\<rparr>)
                 else (\<lambda>l. l))
                  (if max px (prct * real (min (shape0 fr) (shape1 fr))) > 0
                   then filter (\<lambda>e. Rect_max_dim_len (bbox e)
                                      \<ge> max px (prct * real (min (shape0 fr) (shape1 fr)))) lret
                   else lret), st')"
  using assms by (simp add: FaceDetector_call_def Let_def)

lemma filter_nonpositive_threshold:
  assumes "\<forall>e \<in> set lret. 0 \<le> Rect_max_dim_len (bbox e)" and "\<not> 0 < t"
  shows "filter (\<lambda>e. Rect_max_dim_len (bbox e) \<ge> t) lret = lret"
proof -
  have "\<forall>e \<in> set lret. t \<le> Rect_max_dim_len (bbox e)"
    using assms by force
  then show ?thesis by simp
qed

text \<open>
  Claim C3.  For a frame of height \<open>h\<close> and width \<open>w\<close> and raw detections whose boxes
  have a longer side that is not negative (as every box with \<open>x1 \<le> x2\<close> or
  \<open>y1 \<le> y2\<close> has), the size filter of \<open>__call__\<close> keeps exactly the detections whose
  longer side is at least \<open>max(min_size_px, min_size_prct * min(h, w))\<close>, in their
  order; the guard \<open>if min_face_size > 0\<close> changes nothing on such boxes.  In particular
  with \<open>min_size_px = 30\<close> and \<open>min_size_prct = 0\<close>, the boxes whose longer side is
  below 30 are dropped and all others kept, in order.  (The kept boxes are then shifted
  back by the padding offsets when padding is applied.)
\<close>

theorem size_filter_retains:
  assumes "padd_prct self = Some pp" and "min_size_px self = Some px"
    and "min_size_prct self = Some prct"
    and "(if pp \<noteq> 0 then blackpadd fr pp else Inr (fr, 0, 0)) = Inr (tmp, yo, xo)"
    and "call_imp st tmp = Inr (lret, st')"
    and "\<forall>e \<in> set lret. 0 \<le> Rect_max_dim_len (bbox e)"
  shows "FaceDetector_call self call_imp st fr =
           Inr ((if pp \<noteq> 0
                 then map (\<lambda>e. e\<lparr>bbox := Rect_transpose (bbox e)
                                   (- real_of_int xo) (- real_of_int yo)\<rparr>)
                 else (\<lambda>l. l))
                  (filter (\<lambda>e. Rect_max_dim_len (bbox e)
                                 \<ge> max px (prct * real (min (shape0 fr) (shape1 fr)))) lret), st') \<and>
         (px = 30 \<and> prct = 0 \<longrightarrow>
            FaceDetector_call self call_imp st fr =
              Inr ((if pp \<noteq> 0
                    then map (\<lambda>e. e\<lparr>bbox := Rect_transpose (bbox e)
                                      (- real_of_int xo) (- real_of_int yo)\<rparr>)
                    else (\<lambda>l. l))
                     (filter (\<lambda>e. \<not> Rect_max_dim_len (bbox e) < 30) lret), st'))"
proof -
  define t where "t = max px (prct * real (min (shape0 fr) (shape1 fr)))"
  have flt: "(if t > 0 then filter (\<lambda>e. Rect_max_dim_len (bbox e) \<ge> t) lret else lret)
               = filter (\<lambda>e. Rect_max_dim_len (bbox e) \<ge> t) lret"
    using filter_nonpositive_threshold[OF assms(6), of t] by simp
  have guarded: "FaceDetector_call self call_imp st fr =
           Inr ((if pp \<noteq> 0
                 then map (\<lambda>e. e\<lparr>bbox := Rect_transpose (bbox e)
                                   (- real_of_int xo) (- real_of_int yo)\<rparr>)
                 else (\<lambda>l. l))
                  (if t > 0 then filter (\<lambda>e. Rect_max_dim_len (bbox e) \<ge> t) lret
                   else lret), st')"
    unfolding t_def
    by (rule call_size_filter_guarded) (fact assms(1) assms(2) assms(3) assms(4) assms(5))+
  have main: "FaceDetector_call self call_imp st fr =
           Inr ((if pp \<noteq> 0
                 then map (\<lambda>e. e\<lparr>bbox := Rect_transpose (bbox e)
                                   (- real_of_int xo) (- real_of_int yo)\<rparr>)
                 else (\<lambda>l. l))
                  (filter (\<lambda>e. Rect_max_dim_len (bbox e) \<ge> t) lret), st')"
    using guarded by (simp only: flt)
  have "px = 30 \<and> prct = 0 \<Longrightarrow> t = 30"
    by (simp add: t_def)
  with main show ?thesis
    unfolding t_def[symmetric] by (auto simp: not_less)
qed

theorem size_filter_retains_witness:
  "FaceDetector_call (FaceDetector_init 0 30 0 0)
       (\<lambda>st f. Inr ([\<lparr>bbox = \<lparr>x1 = 0, y1 = 0, x2 = 10, y2 = 29\<rparr>, detect_conf = Conf (9 / 10)\<rparr>,
                      \<lparr>bbox = \<lparr>x1 = 5, y1 = 5, x2 = 35, y2 = 15\<rparr>, detect_conf = Conf (8 / 10)\<rparr>,
                      \<lparr>bbox = \<lparr>x1 = 1, y1 = 1, x2 = 2, y2 = 2\<rparr>, detect_conf = Conf (7 / 10)\<rparr>,
                      \<lparr>bbox = \<lparr>x1 = 0, y1 = 0, x2 = 50, y2 = 60\<rparr>, detect_conf = Conf (6 / 10)\<rparr>], st))
       () \<lparr>shape0 = 100, shape1 = 200, shape2 = 3, pixel = (\<lambda>i j c. 0)\<rparr>
     = Inr ([\<lparr>bbox = \<lparr>x1 = 5, y1 = 5, x2 = 35, y2 = 15\<rparr>, detect_conf = Conf (8 / 10)\<rparr>,
             \<lparr>bbox = \<lparr>x1 = 0, y1 = 0, x2 = 50, y2 = 60\<rparr>, detect_conf = Conf (6 / 10)\<rparr>], ()) \<and>
   FaceDetector_call (FaceDetector_init 0 0 0 0)
       (\<lambda>st f. Inr ([\<lparr>bbox = \<lparr>x1 = 0, y1 = 0, x2 = 10, y2 = 29\<rparr>, detect_conf = Conf (9 / 10)\<rparr>,
                      \<lparr>bbox = \<lparr>x1 = 7, y1 = 7, x2 = 7, y2 = 7\<rparr>, detect_conf = Conf (8 / 10)\<rparr>], st))
       () \<lparr>shape0 = 100, shape1 = 200, shape2 = 3, pixel = (\<lambda>i j c. 0)\<rparr>
     = Inr ([\<lparr>bbox = \<lparr>x1 = 0, y1 = 0, x2 = 10, y2 = 29\<rparr>, detect_conf = Conf (9 / 10)\<rparr>,
             \<lparr>bbox = \<lparr>x1 = 7, y1 = 7, x2 = 7, y2 = 7\<rparr>, detect_conf = Conf (8 / 10)\<rparr>], ())"
  using size_filter_retains [of "FaceDetector_init 0 30 0 0" 0 30 0
      "\<lparr>shape0 = 100, shape1 = 200, shape2 = 3, pixel = (\<lambda>i j c. 0)\<rparr>"
      "\<lparr>shape0 = 100, shape1 = 200, shape2 = 3, pixel = (\<lambda>i j c. 0)\<rparr>" 0 0
      "\<lambda>st f. Inr ([\<lparr>bbox = \<lparr>x1 = 0, y1 = 0, x2 = 10, y2 = 29\<rparr>, detect_conf = Conf (9 / 10)\<rparr>,
                      \<lparr>bbox = \<lparr>x1 = 5, y1 = 5, x2 = 35, y2 = 15\<rparr>, detect_conf = Conf (8 / 10)\<rparr>,
                      \<lparr>bbox = \<lparr>x1 = 1, y1 = 1, x2 = 2, y2 = 2\<rparr>, detect_conf = Conf (7 / 10)\<rparr>,
                      \<lparr>bbox = \<lparr>x1 = 0, y1 = 0, x2 = 50, y2 = 60\<rparr>, detect_conf = Conf (6 / 10)\<rparr>], st)"
      "()"
      "[\<lparr>bbox = \<lparr>x1 = 0, y1 = 0, x2 = 10, y2 = 29\<rparr>, detect_conf = Conf (9 / 10)\<rparr>,
        \<lparr>bbox = \<lparr>x1 = 5, y1 = 5, x2 = 35, y2 = 15\<rparr>, detect_conf = Conf (8 / 10)\<rparr>,
        \<lparr>bbox = \<lparr>x1 = 1, y1 = 1, x2 = 2, y2 = 2\<rparr>, detect_conf = Conf (7 / 10)\<rparr>,
        \<lparr>bbox = \<lparr>x1 = 0, y1 = 0, x2 = 50, y2 = 60\<rparr>, detect_conf = Conf (6 / 10)\<rparr>]" "()"]
    size_filter_retains [of "FaceDetector_init 0 0 0 0" 0 0 0
      "\<lparr>shape0 = 100, shape1 = 200, shape2 = 3, pixel = (\<lambda>i j c. 0)\<rparr>"
      "\<lparr>shape0 = 100, shape1 = 200, shape2 = 3, pixel = (\<lambda>i j c. 0)\<rparr>" 0 0
      "\<lambda>st f. Inr ([\<lparr>bbox = \<lparr>x1 = 0, y1 = 0, x2 = 10, y2 = 29\<rparr>, detect_conf = Conf (9 / 10)\<rparr>,
                      \<lparr>bbox = \<lparr>x1 = 7, y1 = 7, x2 = 7, y2 = 7\<rparr>, detect_conf = Conf (8 / 10)\<rparr>], st)"
      "()"
      "[\<lparr>bbox = \<lparr>x1 = 0, y1 = 0, x2 = 10, y2 = 29\<rparr>, detect_conf = Conf (9 / 10)\<rparr>,
        \<lparr>bbox = \<lparr>x1 = 7, y1 = 7, x2 = 7, y2 = 7\<rparr>, detect_conf = Conf (8 / 10)\<rparr>]" "()"]
  by (simp add: FaceDetector_init_def Rect_max_dim_len_def Rect_w_def Rect_h_def)

subsection \<open>Decoding the candidates of the OpenCV network\<close>

lemma sorted_assert_iff: "sorted_assert cs \<longleftrightarrow> sorted_wrt (\<ge>) cs"
proof
  assume "sorted_assert cs"
  then have e: "cs = map uminus (sort (map uminus cs))"
    by (simp add: sorted_assert_def)
  have "sorted (sort (map uminus cs))" by simp
  then have "sorted_wrt (\<ge>) (map uminus (sort (map uminus cs)))"
    by (simp add: sorted_wrt_map)
  with e show "sorted_wrt (\<ge>) cs" by simp
next
  assume "sorted_wrt (\<ge>) cs"
  then have "sorted (map uminus cs)"
    by (simp add: sorted_wrt_map)
  then have "sort (map uminus cs) = map uminus cs"
    by (rule sorted_sort_id)
  then show "sorted_assert cs"
    by (simp add: sorted_assert_def comp_def)
qed

lemma full_scan_below:
  "\<forall>d \<in> set ds. raw_conf d < mc \<Longrightarrow> full_scan mc w h ds = []"
  by (simp add: full_scan_def filter_empty_conv not_le[symmetric])

lemma decode_loop_full_scan:
  "sorted_wrt (\<ge>) (map raw_conf ds) \<Longrightarrow> decode_loop mc w h ds = full_scan mc w h ds"
proof (induction ds)
  case Nil
  show ?case by (simp add: full_scan_def)
next
  case (Cons d ds)
  from Cons.prems have s: "sorted_wrt (\<ge>) (map raw_conf ds)"
    and le: "\<forall>e \<in> set ds. raw_conf e \<le> raw_conf d"
    by simp_all
  show ?case
  proof (cases "raw_conf d < mc")
    case True
    with le have "\<forall>e \<in> set (d # ds). raw_conf e < mc" by auto
    then have "full_scan mc w h (d # ds) = []" by (rule full_scan_below)
    with True show ?thesis by simp
  next
    case False
    have tl: "decode_loop mc w h ds = full_scan mc w h ds"
      using Cons.IH[OF s] .
    show ?thesis
      using False tl by (auto simp: full_scan_def noisy_box_def Let_def)
  qed
qed

text \<open>
  Claim C4.  When the candidates of the network are sorted by descending confidence, the
  decoding loop with its early exit (it stops at the first candidate whose confidence is
  below \<open>minconf\<close>) returns the same detection list as a full scan that keeps every
  candidate with confidence at least \<open>minconf\<close>, with the same rejection of noisy
  boxes and the same scaling to pixels; and \<open>_call_imp\<close>, whose assertion then holds,
  returns that list.
\<close>

theorem early_exit_equals_full_scan:
  assumes "sorted_wrt (\<ge>) (map raw_conf (forward fr))"
  shows "decode_loop mc (shape1 fr) (shape0 fr) (forward fr)
           = full_scan mc (shape1 fr) (shape0 fr) (forward fr) \<and>
         OcvCnn_call_imp (FaceDetector_init mc px prct padd) forward () fr
           = Inr (full_scan mc (shape1 fr) (shape0 fr) (forward fr), ())"
  using assms
  by (simp add: OcvCnn_call_imp_def Let_def sorted_assert_iff decode_loop_full_scan
      FaceDetector_init_def)

theorem early_exit_equals_full_scan_witness:
  "sorted_wrt (\<ge>) (map raw_conf
      [\<lparr>raw_conf = 9 / 10, raw_x1 = 1 / 10, raw_y1 = 1 / 10, raw_x2 = 5 / 10, raw_y2 = 5 / 10\<rparr>,
       \<lparr>raw_conf = 8 / 10, raw_x1 = 6 / 10, raw_y1 = 1 / 10, raw_x2 = 5 / 10, raw_y2 = 5 / 10\<rparr>,
       \<lparr>raw_conf = 7 / 10, raw_x1 = - 1 / 10, raw_y1 = 2 / 10, raw_x2 = 3 / 10, raw_y2 = 1\<rparr>,
       \<lparr>raw_conf = 5 / 10, raw_x1 = 2 / 10, raw_y1 = 2 / 10, raw_x2 = 4 / 10, raw_y2 = 4 / 10\<rparr>,
       \<lparr>raw_conf = 3 / 10, raw_x1 = 0, raw_y1 = 0, raw_x2 = 1, raw_y2 = 1\<rparr>]) \<and>
   OcvCnn_call_imp (FaceDetector_init (65 / 100) 30 0 (15 / 100))
     (\<lambda>f. [\<lparr>raw_conf = 9 / 10, raw_x1 = 1 / 10, raw_y1 = 1 / 10, raw_x2 = 5 / 10, raw_y2 = 5 / 10\<rparr>,
       \<lparr>raw_conf = 8 / 10, raw_x1 = 6 / 10, raw_y1 = 1 / 10, raw_x2 = 5 / 10, raw_y2 = 5 / 10\<rparr>,
       \<lparr>raw_conf = 7 / 10, raw_x1 = - 1 / 10, raw_y1 = 2 / 10, raw_x2 = 3 / 10, raw_y2 = 1\<rparr>,
       \<lparr>raw_conf = 5 / 10, raw_x1 = 2 / 10, raw_y1 = 2 / 10, raw_x2 = 4 / 10, raw_y2 = 4 / 10\<rparr>,
       \<lparr>raw_conf = 3 / 10, raw_x1 = 0, raw_y1 = 0, raw_x2 = 1, raw_y2 = 1\<rparr>])
     () \<lparr>shape0 = 100, shape1 = 200, shape2 = 3, pixel = (\<lambda>i j c. 0)\<rparr>
   = Inr ([\<lparr>bbox = \<lparr>x1 = 20, y1 = 10, x2 = 100, y2 = 50\<rparr>, detect_conf = Conf (9 / 10)\<rparr>,
           \<lparr>bbox = \<lparr>x1 = - 20, y1 = 20, x2 = 60, y2 = 100\<rparr>, detect_conf = Conf (7 / 10)\<rparr>], ())"
  using early_exit_equals_full_scan [of
     "\<lambda>f. [\<lparr>raw_conf = 9 / 10, raw_x1 = 1 / 10, raw_y1 = 1 / 10, raw_x2 = 5 / 10, raw_y2 = 5 / 10\<rparr>,
       \<lparr>raw_conf = 8 / 10, raw_x1 = 6 / 10, raw_y1 = 1 / 10, raw_x2 = 5 / 10, raw_y2 = 5 / 10\<rparr>,
       \<lparr>raw_conf = 7 / 10, raw_x1 = - 1 / 10, raw_y1 = 2 / 10, raw_x2 = 3 / 10, raw_y2 = 1\<rparr>,
       \<lparr>raw_conf = 5 / 10, raw_x1 = 2 / 10, raw_y1 = 2 / 10, raw_x2 = 4 / 10, raw_y2 = 4 / 10\<rparr>,
       \<lparr>raw_conf = 3 / 10, raw_x1 = 0, raw_y1 = 0, raw_x2 = 1, raw_y2 = 1\<rparr>]"
     "\<lparr>shape0 = 100, shape1 = 200, shape2 = 3, pixel = (\<lambda>i j c. 0)\<rparr>" "65 / 100" 30 0 "15 / 100"]
  by (simp add: full_scan_def noisy_box_def Rect_mult_def)

subsection \<open>Selecting a face\<close>

lemma argmin_from_spec:
  "(argmin_from xs i best bi = bi \<and> (\<forall>x \<in> set xs. best \<le> x)) \<or>
   (\<exists>k < length xs. argmin_from xs i best bi = i + k \<and> xs ! k < best \<and>
        (\<forall>j < length xs. xs ! k \<le> xs ! j) \<and> (\<forall>j < k. xs ! k < xs ! j))"
proof (induction xs arbitrary: i best bi)
  case Nil
  show ?case by simp
next
  case (Cons x xs)
  show ?case
  proof (cases "x < best")
    case True
    from Cons.IH[of "Suc i" x i]
    show ?thesis
    proof
      assume a: "argmin_from xs (Suc i) x i = i \<and> (\<forall>y \<in> set xs. x \<le> y)"
      have "0 < length (x # xs) \<and> argmin_from (x # xs) i best bi = i + 0 \<and> (x # xs) ! 0 < best \<and>
        (\<forall>j < length (x # xs). (x # xs) ! 0 \<le> (x # xs) ! j) \<and> (\<forall>j < 0. (x # xs) ! 0 < (x # xs) ! j)"
        using a True by (auto simp: nth_Cons split: nat.splits)
      then show ?thesis by blast
    next
      assume "\<exists>k < length xs. argmin_from xs (Suc i) x i = Suc i + k \<and> xs ! k < x \<and>
        (\<forall>j < length xs. xs ! k \<le> xs ! j) \<and> (\<forall>j < k. xs ! k < xs ! j)"
      then obtain k where k: "k < length xs" "argmin_from xs (Suc i) x i = Suc i + k" "xs ! k < x"
        "\<forall>j < length xs. xs ! k \<le> xs ! j" "\<forall>j < k. xs ! k < xs ! j" by blast
      have "Suc k < length (x # xs) \<and> argmin_from (x # xs) i best bi = i + Suc k \<and>
        (x # xs) ! Suc k < best \<and>
        (\<forall>j < length (x # xs). (x # xs) ! Suc k \<le> (x # xs) ! j) \<and>
        (\<forall>j < Suc k. (x # xs) ! Suc k < (x # xs) ! j)"
        using k True by (auto simp: nth_Cons split: nat.splits)
      then show ?thesis by blast
    qed
  next
    case False
    from Cons.IH[of "Suc i" best bi]
    show ?thesis
    proof
      assume "argmin_from xs (Suc i) best bi = bi \<and> (\<forall>y \<in> set xs. best \<le> y)"
      then show ?thesis using False by auto
    next
      assume "\<exists>k < length xs. argmin_from xs (Suc i) best bi = Suc i + k \<and> xs ! k < best \<and>
        (\<forall>j < length xs. xs ! k \<le> xs ! j) \<and> (\<forall>j < k. xs ! k < xs ! j)"
      then obtain k where k: "k < length xs" "argmin_from xs (Suc i) best bi = Suc i + k"
        "xs ! k < best"
        "\<forall>j < length xs. xs ! k \<le> xs ! j" "\<forall>j < k. xs ! k < xs ! j" by blast
      have "Suc k < length (x # xs) \<and> argmin_from (x # xs) i best bi = i + Suc k \<and>
        (x # xs) ! Suc k < best \<and>
        (\<forall>j < length (x # xs). (x # xs) ! Suc k \<le> (x # xs) ! j) \<and>
        (\<forall>j < Suc k. (x # xs) ! Suc k < (x # xs) ! j)"
        using k False by (auto simp: nth_Cons split: nat.splits)
      then show ?thesis by blast
    qed
  qed
qed

lemma np_argmin_spec:
  assumes "xs \<noteq> []"
  shows "\<exists>am. np_argmin xs = Inr am \<and> am < length xs \<and>
           (\<forall>j < length xs. xs ! am \<le> xs ! j) \<and> (\<forall>j < am. xs ! am < xs ! j)"
proof -
  from assms obtain x r where xs: "xs = x # r" by (cases xs) auto
  from argmin_from_spec[of r 1 x 0]
  show ?thesis
  proof
    assume a: "argmin_from r 1 x 0 = 0 \<and> (\<forall>y \<in> set r. x \<le> y)"
    have "np_argmin xs = Inr 0 \<and> 0 < length xs \<and>
           (\<forall>j < length xs. xs ! 0 \<le> xs ! j) \<and> (\<forall>j < 0. xs ! 0 < xs ! j)"
      using a xs by (auto simp: np_argmin_def nth_Cons split: nat.splits)
    then show ?thesis by blast
  next
    assume "\<exists>k < length r. argmin_from r 1 x 0 = 1 + k \<and> r ! k < x \<and>
        (\<forall>j < length r. r ! k \<le> r ! j) \<and> (\<forall>j < k. r ! k < r ! j)"
    then obtain k where k: "k < length r" "argmin_from r 1 x 0 = 1 + k" "r ! k < x"
      "\<forall>j < length r. r ! k \<le> r ! j" "\<forall>j < k. r ! k < r ! j" by blast
    have "np_argmin xs = Inr (Suc k) \<and> Suc k < length xs \<and>
           (\<forall>j < length xs. xs ! Suc k \<le> xs ! j) \<and> (\<forall>j < Suc k. xs ! Suc k < xs ! j)"
      using k xs by (auto simp: np_argmin_def nth_Cons split: nat.splits)
    then show ?thesis by blast
  qed
qed

lemma argmax_from_argmin:
  "argmax_from xs i best bi = argmin_from (map uminus xs) i (- best) bi"
  by (induction xs arbitrary: i best bi) simp_all

lemma np_argmax_argmin: "np_argmax xs = np_argmin (map uminus xs)"
  by (cases xs) (simp_all add: np_argmax_def np_argmin_def argmax_from_argmin)

lemma np_argmax_spec:
  assumes "xs \<noteq> []"
  shows "\<exists>am. np_argmax xs = Inr am \<and> am < length xs \<and>
           (\<forall>j < length xs. xs ! j \<le> xs ! am) \<and> (\<forall>j < am. xs ! j < xs ! am)"
proof -
  from assms have "map uminus xs \<noteq> []" by simp
  from np_argmin_spec[OF this] obtain am where am:
    "np_argmin (map uminus xs) = Inr am" "am < length xs"
    "\<forall>j < length xs. map uminus xs ! am \<le> map uminus xs ! j"
    "\<forall>j < am. map uminus xs ! am < map uminus xs ! j"
    by auto
  have "np_argmax xs = Inr am \<and> am < length xs \<and>
           (\<forall>j < length xs. xs ! j \<le> xs ! am) \<and> (\<forall>j < am. xs ! j < xs ! am)"
    using am by (auto simp: np_argmax_argmin)
  then show ?thesis by blast
qed

lemma Rect_square_idem: "Rect_square (Rect_square r) = Rect_square r"
  by (simp add: Rect_square_def Rect_center_def Rect_max_dim_len_def Rect_w_def Rect_h_def Let_def)

text \<open>
  Claim C1.  On the detections \<open>ds\<close> that the detector returns for the frame,
  \<open>most_central_face\<close> returns \<open>None\<close> exactly when no box of \<open>ds\<close> contains
  the center \<open>(width / 2, height / 2)\<close> of the frame; otherwise it returns, among the
  detections whose box contains the center, one whose box center has the least squared
  distance to it, and the first of them in the order of detection.
\<close>

theorem most_central_face_spec:
  assumes "FaceDetector_call self call_imp st fr = Inr (ds, st')"
  shows "(let c = (real (shape1 fr) / 2, real (shape0 fr) / 2);
              faces = filter (\<lambda>f. Rect_contains (bbox f) c) ds;
              dist = (\<lambda>f. sqdist (Rect_center (bbox f)) c)
          in if (\<forall>d \<in> set ds. \<not> Rect_contains (bbox d) c)
             then most_central_face self call_imp st fr = Inr (None, st')
             else (\<exists>i < length faces.
                     most_central_face self call_imp st fr = Inr (Some (faces ! i), st') \<and>
                     (\<forall>j < length faces. dist (faces ! i) \<le> dist (faces ! j)) \<and>
                     (\<forall>j < i. dist (faces ! i) < dist (faces ! j))))"
proof -
  define c where "c = (real (shape1 fr) / 2, real (shape0 fr) / 2)"
  define faces where "faces = filter (\<lambda>f. Rect_contains (bbox f) c) ds"
  define dist where "dist = (\<lambda>f::detection. sqdist (Rect_center (bbox f)) c)"
  have mcf: "most_central_face self call_imp st fr =
               (if length faces = 0 then Inr (None, st')
                else (case np_argmin (map dist faces) of
                        Inl e \<Rightarrow> Inl e
                      | Inr am \<Rightarrow> Inr (Some (faces ! am), st')))"
    unfolding most_central_face_def Let_def assms faces_def dist_def c_def by simp
  have goal: "if (\<forall>d \<in> set ds. \<not> Rect_contains (bbox d) c)
             then most_central_face self call_imp st fr = Inr (None, st')
             else (\<exists>i < length faces.
                     most_central_face self call_imp st fr = Inr (Some (faces ! i), st') \<and>
                     (\<forall>j < length faces. dist (faces ! i) \<le> dist (faces ! j)) \<and>
                     (\<forall>j < i. dist (faces ! i) < dist (faces ! j)))"
  proof (cases "\<forall>d \<in> set ds. \<not> Rect_contains (bbox d) c")
    case True
    then have "faces = []" by (simp add: faces_def filter_empty_conv)
    with True show ?thesis by (simp add: mcf)
  next
    case False
    then have ne: "faces \<noteq> []" by (simp add: faces_def filter_empty_conv)
    then have "map dist faces \<noteq> []" by simp
    from np_argmin_spec[OF this] obtain am where am:
      "np_argmin (map dist faces) = Inr am" "am < length faces"
      "\<forall>j < length faces. map dist faces ! am \<le> map dist faces ! j"
      "\<forall>j < am. map dist faces ! am < map dist faces ! j"
      by auto
    have "am < length faces \<and>
          most_central_face self call_imp st fr = Inr (Some (faces ! am), st') \<and>
          (\<forall>j < length faces. dist (faces ! am) \<le> dist (faces ! j)) \<and>
          (\<forall>j < am. dist (faces ! am) < dist (faces ! j))"
      using am ne by (auto simp: mcf)
    then have "\<exists>i < length faces.
                     most_central_face self call_imp st fr = Inr (Some (faces ! i), st') \<and>
                     (\<forall>j < length faces. dist (faces ! i) \<le> dist (faces ! j)) \<and>
                     (\<forall>j < i. dist (faces ! i) < dist (faces ! j))" by blast
    with False show ?thesis by (simp only: if_False)
  qed
  show ?thesis
    using goal unfolding Let_def c_def faces_def dist_def .
qed

theorem most_central_face_spec_witness:
  "FaceDetector_call (FaceDetector_init 0 0 0 0) Precomputed_call_imp
       [ListEntry [(0, 0, 10, 10), (40, 40, 120, 80), (90, 40, 110, 60), (80, 30, 120, 70)]]
       \<lparr>shape0 = 100, shape1 = 200, shape2 = 3, pixel = (\<lambda>i j c. 0)\<rparr>
     = Inr ([\<lparr>bbox = \<lparr>x1 = 0, y1 = 0, x2 = 10, y2 = 10\<rparr>, detect_conf = NoConf\<rparr>,
             \<lparr>bbox = \<lparr>x1 = 40, y1 = 40, x2 = 120, y2 = 80\<rparr>, detect_conf = NoConf\<rparr>,
             \<lparr>bbox = \<lparr>x1 = 90, y1 = 40, x2 = 110, y2 = 60\<rparr>, detect_conf = NoConf\<rparr>,
             \<lparr>bbox = \<lparr>x1 = 80, y1 = 30, x2 = 120, y2 = 70\<rparr>, detect_conf = NoConf\<rparr>], []) \<and>
   most_central_face (FaceDetector_init 0 0 0 0) Precomputed_call_imp
       [ListEntry [(0, 0, 10, 10), (40, 40, 120, 80), (90, 40, 110, 60), (80, 30, 120, 70)]]
       \<lparr>shape0 = 100, shape1 = 200, shape2 = 3, pixel = (\<lambda>i j c. 0)\<rparr>
     = Inr (Some \<lparr>bbox = \<lparr>x1 = 90, y1 = 40, x2 = 110, y2 = 60\<rparr>, detect_conf = NoConf\<rparr>, [])"
proof -
  have call: "FaceDetector_call (FaceDetector_init 0 0 0 0) Precomputed_call_imp
       [ListEntry [(0, 0, 10, 10), (40, 40, 120, 80), (90, 40, 110, 60), (80, 30, 120, 70)]]
       \<lparr>shape0 = 100, shape1 = 200, shape2 = 3, pixel = (\<lambda>i j c. 0)\<rparr>
     = Inr ([\<lparr>bbox = \<lparr>x1 = 0, y1 = 0, x2 = 10, y2 = 10\<rparr>, detect_conf = NoConf\<rparr>,
             \<lparr>bbox = \<lparr>x1 = 40, y1 = 40, x2 = 120, y2 = 80\<rparr>, detect_conf = NoConf\<rparr>,
             \<lparr>bbox = \<lparr>x1 = 90, y1 = 40, x2 = 110, y2 = 60\<rparr>, detect_conf = NoConf\<rparr>,
             \<lparr>bbox = \<lparr>x1 = 80, y1 = 30, x2 = 120, y2 = 70\<rparr>, detect_conf = NoConf\<rparr>], [])"
    by (simp add: precomputed_call Precomputed_call_imp_def Rect_of_def)
  have direct: "most_central_face (FaceDetector_init 0 0 0 0) Precomputed_call_imp
       [ListEntry [(0, 0, 10, 10), (40, 40, 120, 80), (90, 40, 110, 60), (80, 30, 120, 70)]]
       \<lparr>shape0 = 100, shape1 = 200, shape2 = 3, pixel = (\<lambda>i j c. 0)\<rparr>
     = Inr (Some \<lparr>bbox = \<lparr>x1 = 90, y1 = 40, x2 = 110, y2 = 60\<rparr>, detect_conf = NoConf\<rparr>, [])"
    by (simp add: most_central_face_def call Let_def Rect_contains_def Rect_center_def
        sqdist_def np_argmin_def)
  show ?thesis
    using call direct most_central_face_spec [OF call] by blast
qed

text \<open>
  Claim C2.  With \<open>f\<close> the squarification when \<open>squarify\<close> is set and the identity
  otherwise: when the detector returns no detection, \<open>get_closest_face\<close> returns
  \<open>None\<close>; otherwise it takes the first detection that maximizes
  \<open>iou (f r) (f bbox)\<close>, and returns it when that intersection over union is at least
  \<open>min_iou\<close>, and \<open>None\<close> when it is below.
\<close>

theorem get_closest_face_spec:
  assumes "FaceDetector_call self call_imp st fr = Inr (lfaces, st')"
  shows "(let f = (if squarify then Rect_square else (\<lambda>x. x));
              v = (\<lambda>d. iou (f r) (f (bbox d)))
          in if lfaces = [] then
               get_closest_face iou self call_imp st fr r min_iou squarify = Inr (None, st')
             else (\<exists>i < length lfaces.
                     (\<forall>j < length lfaces. v (lfaces ! j) \<le> v (lfaces ! i)) \<and>
                     (\<forall>j < i. v (lfaces ! j) < v (lfaces ! i)) \<and>
                     get_closest_face iou self call_imp st fr r min_iou squarify =
                       (if v (lfaces ! i) < min_iou then Inr (None, st')
                        else Inr (Some (lfaces ! i), st'))))"
proof -
  define f where "f = (if squarify then Rect_square else (\<lambda>x. x))"
  define v where "v = (\<lambda>d::detection. iou (f r) (f (bbox d)))"
  have ff: "f (f r) = f r"
    by (simp add: f_def Rect_square_idem)
  have gcf: "get_closest_face iou self call_imp st fr r min_iou squarify =
               (if length lfaces = 0 then Inr (None, st')
                else (case np_argmax (map v lfaces) of
                        Inl e \<Rightarrow> Inl e
                      | Inr am \<Rightarrow>
                         if map v lfaces ! am < min_iou then Inr (None, st')
                         else Inr (Some (lfaces ! am), st')))"
    unfolding get_closest_face_def Let_def assms f_def[symmetric] ff v_def by simp
  have goal: "if lfaces = [] then
               get_closest_face iou self call_imp st fr r min_iou squarify = Inr (None, st')
             else (\<exists>i < length lfaces.
                     (\<forall>j < length lfaces. v (lfaces ! j) \<le> v (lfaces ! i)) \<and>
                     (\<forall>j < i. v (lfaces ! j) < v (lfaces ! i)) \<and>
                     get_closest_face iou self call_imp st fr r min_iou squarify =
                       (if v (lfaces ! i) < min_iou then Inr (None, st')
                        else Inr (Some (lfaces ! i), st')))"
  proof (cases "lfaces = []")
    case True
    then show ?thesis by (simp add: gcf)
  next
    case False
    then have "map v lfaces \<noteq> []" by simp
    from np_argmax_spec[OF this] obtain am where am:
      "np_argmax (map v lfaces) = Inr am" "am < length lfaces"
      "\<forall>j < length lfaces. map v lfaces ! j \<le> map v lfaces ! am"
      "\<forall>j < am. map v lfaces ! j < map v lfaces ! am"
      by auto
    have "am < length lfaces \<and>
          (\<forall>j < length lfaces. v (lfaces ! j) \<le> v (lfaces ! am)) \<and>
          (\<forall>j < am. v (lfaces ! j) < v (lfaces ! am)) \<and>
          get_closest_face iou self call_imp st fr r min_iou squarify =
            (if v (lfaces ! am) < min_iou then Inr (None, st')
             else Inr (Some (lfaces ! am), st'))"
      using am False by (auto simp: gcf)
    then have "\<exists>i < length lfaces.
                     (\<forall>j < length lfaces. v (lfaces ! j) \<le> v (lfaces ! i)) \<and>
                     (\<forall>j < i. v (lfaces ! j) < v (lfaces ! i)) \<and>
                     get_closest_face iou self call_imp st fr r min_iou squarify =
                       (if v (lfaces ! i) < min_iou then Inr (None, st')
                        else Inr (Some (lfaces ! i), st'))" by blast
    with False show ?thesis by (simp only: if_False)
  qed
  show ?thesis
    using goal unfolding Let_def v_def f_def .
qed

theorem get_closest_face_spec_witness:
  "FaceDetector_call (FaceDetector_init 0 0 0 0) Precomputed_call_imp
       [ListEntry [(0, 0, 10, 10), (50, 50, 60, 60)]]
       \<lparr>shape0 = 100, shape1 = 200, shape2 = 3, pixel = (\<lambda>i j c. 0)\<rparr>
     = Inr ([\<lparr>bbox = \<lparr>x1 = 0, y1 = 0, x2 = 10, y2 = 10\<rparr>, detect_conf = NoConf\<rparr>,
             \<lparr>bbox = \<lparr>x1 = 50, y1 = 50, x2 = 60, y2 = 60\<rparr>, detect_conf = NoConf\<rparr>], []) \<and>
   get_closest_face (\<lambda>a b. if x1 b = 0 then 9 / 10 else 1 / 10)
       (FaceDetector_init 0 0 0 0) Precomputed_call_imp
       [ListEntry [(0, 0, 10, 10), (50, 50, 60, 60)]]
       \<lparr>shape0 = 100, shape1 = 200, shape2 = 3, pixel = (\<lambda>i j c. 0)\<rparr>
       \<lparr>x1 = 1, y1 = 1, x2 = 9, y2 = 11\<rparr> (7 / 10) True
     = Inr (Some \<lparr>bbox = \<lparr>x1 = 0, y1 = 0, x2 = 10, y2 = 10\<rparr>, detect_conf = NoConf\<rparr>, []) \<and>
   get_closest_face (\<lambda>a b. if x1 b = 0 then 9 / 10 else 1 / 10)
       (FaceDetector_init 0 0 0 0) Precomputed_call_imp
       [ListEntry [(0, 0, 10, 10), (50, 50, 60, 60)]]
       \<lparr>shape0 = 100, shape1 = 200, shape2 = 3, pixel = (\<lambda>i j c. 0)\<rparr>
       \<lparr>x1 = 1, y1 = 1, x2 = 9, y2 = 11\<rparr> (95 / 100) True
     = Inr (None, [])"
proof -
  have call: "FaceDetector_call (FaceDetector_init 0 0 0 0) Precomputed_call_imp
       [ListEntry [(0, 0, 10, 10), (50, 50, 60, 60)]]
       \<lparr>shape0 = 100, shape1 = 200, shape2 = 3, pixel = (\<lambda>i j c. 0)\<rparr>
     = Inr ([\<lparr>bbox = \<lparr>x1 = 0, y1 = 0, x2 = 10, y2 = 10\<rparr>, detect_conf = NoConf\<rparr>,
             \<lparr>bbox = \<lparr>x1 = 50, y1 = 50, x2 = 60, y2 = 60\<rparr>, detect_conf = NoConf\<rparr>], [])"
    by (simp add: precomputed_call Precomputed_call_imp_def Rect_of_def)
  have a: "get_closest_face (\<lambda>a b. if x1 b = 0 then 9 / 10 else 1 / 10)
       (FaceDetector_init 0 0 0 0) Precomputed_call_imp
       [ListEntry [(0, 0, 10, 10), (50, 50, 60, 60)]]
       \<lparr>shape0 = 100, shape1 = 200, shape2 = 3, pixel = (\<lambda>i j c. 0)\<rparr>
       \<lparr>x1 = 1, y1 = 1, x2 = 9, y2 = 11\<rparr> (7 / 10) True
     = Inr (Some \<lparr>bbox = \<lparr>x1 = 0, y1 = 0, x2 = 10, y2 = 10\<rparr>, detect_conf = NoConf\<rparr>, [])"
    by (simp add: get_closest_face_def call Let_def Rect_square_def Rect_center_def
        Rect_max_dim_len_def Rect_w_def Rect_h_def np_argmax_def)
  have b: "get_closest_face (\<lambda>a b. if x1 b = 0 then 9 / 10 else 1 / 10)
       (FaceDetector_init 0 0 0 0) Precomputed_call_imp
       [ListEntry [(0, 0, 10, 10), (50, 50, 60, 60)]]
       \<lparr>shape0 = 100, shape1 = 200, shape2 = 3, pixel = (\<lambda>i j c. 0)\<rparr>
       \<lparr>x1 = 1, y1 = 1, x2 = 9, y2 = 11\<rparr> (95 / 100) True
     = Inr (None, [])"
    by (simp add: get_closest_face_def call Let_def Rect_square_def Rect_center_def
        Rect_max_dim_len_def Rect_w_def Rect_h_def np_argmax_def)
  show ?thesis
    using call a b get_closest_face_spec [OF call] by blast
qed

end
